theory Spec2Isabelle
  imports Complex_Main "HOL-Library.Log_Nat"
begin

section \<open>The accounts data model (apps/accounts/models.py)\<close>

text \<open>
  Every model class is a record extending \<open>Model\<close>, which carries the primary key that
  Django adds to each model (\<open>None\<close> until the instance has been inserted). Foreign keys
  and one-to-one fields hold the primary key of the referenced account. Python strings are
  \<open>string\<close>, Python integers are \<open>int\<close>, and \<open>decimal.Decimal\<close> values are the rational
  numbers they denote.

  Columns that no operation of the module reads or computes with are left out: the
  columns inherited from \<open>AbstractUser\<close> other than \<open>username\<close>, uploaded files and
  images, dates and time stamps, network addresses, GPS coordinates, bank details and the
  login history.
\<close>

type_synonym Decimal = rat

record Model =
  pk :: "nat option"

record FarmerProfile = Model +
  user :: nat
  farm_name :: string
  farm_size :: string
  farm_size_acres :: Decimal
  farming_type :: string
  farming_experience_years :: int
  farm_address :: string
  organic_certified :: bool
  organic_certification_number :: string
  average_rating :: Decimal
  total_reviews :: int
  is_active_seller :: bool
  subscription_plan :: string

record BuyerProfile = Model +
  user :: nat
  buyer_type :: string
  company_name :: string
  gst_number :: string
  preferred_delivery_time :: string
  special_instructions :: string
  total_orders :: int
  total_spent :: Decimal
  average_order_value :: Decimal
  loyalty_points :: int
  membership_tier :: string
  prefers_organic :: bool
  max_delivery_distance :: int

record User = Model +
  username :: string
  user_type :: string
  phone_number :: string
  address_line_1 :: string
  address_line_2 :: string
  city :: string
  state :: string
  postal_code :: string
  country :: string
  is_verified :: bool
  verification_status :: string
  business_name :: string
  business_registration_number :: string
  tax_id :: string

text \<open>
  An account object in memory also caches the objects of its two reverse one-to-one
  relations (\<open>related_name='farmer_profile'\<close> and \<open>'buyer_profile'\<close>) once they have been
  read or assigned. The row stored in the table is the \<open>User\<close> part of the object.
\<close>

record UserObject = User +
  farmer_profile :: "FarmerProfile option"
  buyer_profile :: "BuyerProfile option"

record Address = Model +
  user :: nat
  address_type :: string
  title :: string
  address_line_1 :: string
  address_line_2 :: string
  city :: string
  state :: string
  postal_code :: string
  country :: string
  is_default :: bool
  is_active :: bool

text \<open>The database: one table per model, named by the model's \<open>db_table\<close>.\<close>

record db =
  accounts_user :: "User list"
  accounts_farmer_profile :: "FarmerProfile list"
  accounts_buyer_profile :: "BuyerProfile list"
  accounts_address :: "Address list"

text \<open>
  An operation either returns (\<open>Done\<close>) or raises (\<open>Raised\<close>); both carry the database as
  the operation leaves it, because statements already executed stay committed when a later
  one raises (no operation of the module opens a transaction).
\<close>

datatype error =
  IntegrityError | InvalidOperation | DivisionByZero | ValueError | ValidationError

datatype 'a outcome = Done 'a db | Raised error db

fun db_of :: "'a outcome \<Rightarrow> db" where
  "db_of (Done x d) = d"
| "db_of (Raised e d) = d"

subsection \<open>Saving an instance into its table\<close>

text \<open>
  \<open>Model.save\<close>: an instance without primary key is inserted under a fresh key; an
  instance whose key is in the table replaces the row of that key; an instance whose key
  is not in the table is inserted under its key. The table's constraints are checked
  against the rows of every other key, and a violation raises \<open>IntegrityError\<close>.
  The fresh key is the successor of the largest key in the table. The sequence of a
  database gives that key as long as the row of the largest key was never deleted, and a
  larger one afterwards.
\<close>

definition next_id :: "('a Model_scheme) list \<Rightarrow> nat" where
  "next_id tbl = Suc (fold max (List.map_filter pk tbl) 0)"

definition has_pk :: "nat \<Rightarrow> ('a Model_scheme) list \<Rightarrow> bool" where
  "has_pk k tbl = list_ex (\<lambda>r. pk r = Some k) tbl"

definition save_table ::
  "('a Model_scheme \<Rightarrow> ('a Model_scheme) list \<Rightarrow> bool) \<Rightarrow> 'a Model_scheme \<Rightarrow>
   ('a Model_scheme) list \<Rightarrow> error + ('a Model_scheme \<times> ('a Model_scheme) list)" where
  "save_table constraints_ok inst tbl =
     (let k = (case pk inst of Some k \<Rightarrow> k | None \<Rightarrow> next_id tbl);
          inst' = inst\<lparr>pk := Some k\<rparr>;
          others = filter (\<lambda>r. pk r \<noteq> Some k) tbl
      in if \<not> constraints_ok inst' others then Inl IntegrityError
         else if has_pk k tbl
           then Inr (inst', map (\<lambda>r. if pk r = Some k then inst' else r) tbl)
           else Inr (inst', tbl @ [inst']))"

subsection \<open>Address\<close>

text \<open>
  The constraints of \<open>accounts_address\<close>: the foreign key \<open>user\<close> references a row of
  \<open>accounts_user\<close>, and \<open>unique_together = ['user', 'title']\<close>.
\<close>

definition Address_constraints :: "db \<Rightarrow> Address \<Rightarrow> Address list \<Rightarrow> bool" where
  "Address_constraints d a others =
     (has_pk (Address.user a) (accounts_user d) \<and>
      \<not> list_ex (\<lambda>r. Address.user r = Address.user a \<and> title r = title a) others)"

definition Address_super_save :: "Address \<Rightarrow> db \<Rightarrow> Address outcome" where
  "Address_super_save self d =
     (case save_table (Address_constraints d) self (accounts_address d) of
        Inl e \<Rightarrow> Raised e d
      | Inr (self', tbl) \<Rightarrow> Done self' (d\<lparr>accounts_address := tbl\<rparr>))"

text \<open>
  \<^verbatim>\<open>
  def save(self, *args, **kwargs):
      if self.is_default:
          Address.objects.filter(user=self.user, is_default=True).update(is_default=False)
      super().save(*args, **kwargs)
  \<close>
  \<open>self.user\<close> is the account object that the address was built with, so evaluating it
  reads nothing from the database: an address whose account has no row is rejected by the
  foreign key when it is written, after the clearing update. (An address that holds only
  the key of a missing account raises \<open>User.DoesNotExist\<close> at \<open>self.user\<close> instead, before
  any write; a table that respects the foreign key holds no address of that account, so
  the database is left the same.)
\<close>

definition clear_defaults :: "nat \<Rightarrow> Address list \<Rightarrow> Address list" where
  "clear_defaults u tbl =
     map (\<lambda>r. if Address.user r = u \<and> is_default r then r\<lparr>is_default := False\<rparr> else r) tbl"

definition Address_save :: "Address \<Rightarrow> db \<Rightarrow> Address outcome" where
  "Address_save self d =
     (if is_default self
      then Address_super_save self
             (d\<lparr>accounts_address := clear_defaults (Address.user self) (accounts_address d)\<rparr>)
      else Address_super_save self d)"

subsection \<open>Decimal arithmetic and decimal columns\<close>

text \<open>
  Python's \<open>decimal\<close> module computes each sum and quotient exactly and rounds it to the
  precision of the context, 28 significant digits, ties to the even digit
  (\<open>ROUND_HALF_EVEN\<close>). \<open>adjusted x\<close> is the exponent of the leading digit of \<open>x\<close>, as
  \<open>Decimal.adjusted()\<close>. Dividing by zero raises \<open>DivisionByZero\<close>, or
  \<open>InvalidOperation\<close> when the dividend is zero as well. Only finite values are modelled,
  and the exponent limits of the context are not.
\<close>

definition round_half_even :: "rat \<Rightarrow> int" where
  "round_half_even x =
     (let f = \<lfloor>x\<rfloor>; r = x - of_int f
      in if r < 1 / 2 then f else if 1 / 2 < r then f + 1 else if even f then f else f + 1)"







text \<open>
  A \<open>DecimalField(max_digits, decimal_places)\<close> is written through
  \<open>format_number\<close>: the value is quantized to \<open>decimal_places\<close> places
  (\<open>ROUND_HALF_EVEN\<close>) under a context of \<open>max_digits\<close> digits, which raises
  \<open>InvalidOperation\<close> when the quantized value needs more digits than that. This is what
  the database backends that format decimals in Python do. A backend that hands the value
  to a \<open>numeric(max_digits, decimal_places)\<close> column keeps as many places and rejects
  the same values, but may break a tie the other way. The model follows the releases of
  Django up to 5.1; from 5.2 on \<open>save\<close> leaves the rounding and the range check to the
  database.
\<close>

definition quantize :: "Decimal \<Rightarrow> nat \<Rightarrow> Decimal" where
  "quantize x places = of_int (round_half_even (x * 10 ^ places)) / 10 ^ places"

definition format_number :: "Decimal \<Rightarrow> nat \<Rightarrow> nat \<Rightarrow> error + Decimal" where
  "format_number v max_digits decimal_places =
     (let q = quantize v decimal_places
      in if \<bar>q\<bar> * 10 ^ decimal_places < 10 ^ max_digits then Inr q else Inl InvalidOperation)"

subsection \<open>BuyerProfile\<close>

text \<open>
  The constraints of \<open>accounts_buyer_profile\<close>: the one-to-one field \<open>user\<close> references a
  row of \<open>accounts_user\<close> and is unique, and every \<open>PositiveIntegerField\<close> is checked to
  be non-negative. \<open>BuyerProfile\<close> does not override \<open>save\<close>: the decimal columns are
  formatted, then the row is written. The object in memory keeps its own values and
  receives the primary key.
\<close>

definition BuyerProfile_constraints :: "db \<Rightarrow> BuyerProfile \<Rightarrow> BuyerProfile list \<Rightarrow> bool" where
  "BuyerProfile_constraints d p others =
     (has_pk (BuyerProfile.user p) (accounts_user d) \<and>
      \<not> list_ex (\<lambda>r. BuyerProfile.user r = BuyerProfile.user p) others \<and>
      0 \<le> total_orders p \<and> 0 \<le> loyalty_points p \<and> 0 \<le> max_delivery_distance p)"

definition BuyerProfile_save :: "BuyerProfile \<Rightarrow> db \<Rightarrow> BuyerProfile outcome" where
  "BuyerProfile_save self d =
     (case format_number (total_spent self) 12 2 of
        Inl e \<Rightarrow> Raised e d
      | Inr spent \<Rightarrow>
         (case format_number (average_order_value self) 10 2 of
            Inl e \<Rightarrow> Raised e d
          | Inr average \<Rightarrow>
             (case save_table (BuyerProfile_constraints d)
                     (self\<lparr>total_spent := spent, average_order_value := average\<rparr>)
                     (accounts_buyer_profile d) of
                Inl e \<Rightarrow> Raised e d
              | Inr (row, tbl) \<Rightarrow> Done (self\<lparr>pk := pk row\<rparr>) (d\<lparr>accounts_buyer_profile := tbl\<rparr>))))"


text \<open>The field defaults of \<open>BuyerProfile(user=instance)\<close>.\<close>

definition BuyerProfile_init :: "nat \<Rightarrow> BuyerProfile" where
  "BuyerProfile_init uid =
     \<lparr>pk = None, BuyerProfile.user = uid, buyer_type = ''individual'', company_name = '''',
      gst_number = '''', preferred_delivery_time = '''', special_instructions = '''',
      total_orders = 0, total_spent = 0, average_order_value = 0, loyalty_points = 0,
      membership_tier = ''bronze'', prefers_organic = False, max_delivery_distance = 50\<rparr>"

subsection \<open>FarmerProfile\<close>

definition FarmerProfile_constraints ::
  "db \<Rightarrow> FarmerProfile \<Rightarrow> FarmerProfile list \<Rightarrow> bool" where
  "FarmerProfile_constraints d p others =
     (has_pk (FarmerProfile.user p) (accounts_user d) \<and>
      \<not> list_ex (\<lambda>r. FarmerProfile.user r = FarmerProfile.user p) others \<and>
      0 \<le> farming_experience_years p \<and> 0 \<le> total_reviews p)"

definition FarmerProfile_save :: "FarmerProfile \<Rightarrow> db \<Rightarrow> FarmerProfile outcome" where
  "FarmerProfile_save self d =
     (case format_number (farm_size_acres self) 10 2 of
        Inl e \<Rightarrow> Raised e d
      | Inr acres \<Rightarrow>
         (case format_number (average_rating self) 3 2 of
            Inl e \<Rightarrow> Raised e d
          | Inr rating \<Rightarrow>
             (case save_table (FarmerProfile_constraints d)
                     (self\<lparr>farm_size_acres := acres, average_rating := rating\<rparr>)
                     (accounts_farmer_profile d) of
                Inl e \<Rightarrow> Raised e d
              | Inr (row, tbl) \<Rightarrow> Done (self\<lparr>pk := pk row\<rparr>) (d\<lparr>accounts_farmer_profile := tbl\<rparr>))))"

subsection \<open>User\<close>

text \<open>
  \<^verbatim>\<open>
  @property
  def full_address(self):
      address_parts = [self.address_line_1, self.address_line_2, self.city,
                       self.state, self.postal_code, self.country]
      return ', '.join([part for part in address_parts if part])
  \<close>
\<close>

fun join :: "string \<Rightarrow> string list \<Rightarrow> string" where
  "join sep [] = []"
| "join sep [x] = x"
| "join sep (x # y # ys) = x @ sep @ join sep (y # ys)"

definition address_parts :: "'a User_scheme \<Rightarrow> string list" where
  "address_parts self =
     [User.address_line_1 self, User.address_line_2 self, User.city self, User.state self,
      User.postal_code self, User.country self]"

definition full_address :: "'a User_scheme \<Rightarrow> string" where
  "full_address self = join '', '' (filter (\<lambda>part. part \<noteq> []) (address_parts self))"

text \<open>The object of an account row as read from the table: nothing is cached yet.\<close>

definition User_object :: "User \<Rightarrow> UserObject" where
  "User_object row = User.extend row (UserObject.fields None None)"

subsection \<open>The phone number validator\<close>

text \<open>
  \<^verbatim>\<open>
  phone_regex = RegexValidator(
      regex=r'^(?:\+91)?[6-9]\d{9}$',
      message="Phone number must be entered in the format: '+999999999'. Up to 15 digits allowed.")
  \<close>
  The fragment of Python's regular expressions that the pattern uses. \<open>step r (i, s)\<close>
  lists, in the order of the backtracking search, the states after a match of \<open>r\<close> that
  begins at position \<open>i\<close> with \<open>s\<close> left to read. \<open>^\<close> matches at position 0 only and
  \<open>$\<close> matches at the end of the string and before a newline that ends the string, since
  no flag is given. \<open>\d\<close> is a decimal digit; among the characters of \<open>string\<close> these are
  \<open>0\<close> to \<open>9\<close>. \<open>r{n}\<close> is \<open>repeated n r\<close>. A \<open>RegexValidator\<close> accepts a value when
  \<open>search\<close> finds a match in it, and raises \<open>ValidationError\<close> otherwise.
\<close>

datatype regex =
    Chr char
  | Range char char
  | Digit
  | Seq regex regex
  | Opt regex
  | Eps
  | Bol
  | Eol

definition is_digit :: "char \<Rightarrow> bool" where
  "is_digit c = (48 \<le> (of_char c :: nat) \<and> (of_char c :: nat) \<le> 57)"

definition in_range :: "char \<Rightarrow> char \<Rightarrow> char \<Rightarrow> bool" where
  "in_range a b c = ((of_char a :: nat) \<le> of_char c \<and> (of_char c :: nat) \<le> of_char b)"

fun step :: "regex \<Rightarrow> nat \<times> string \<Rightarrow> (nat \<times> string) list" where
  "step (Chr c) (i, s) = (case s of [] \<Rightarrow> [] | x # xs \<Rightarrow> if x = c then [(Suc i, xs)] else [])"
| "step (Range a b) (i, s) =
     (case s of [] \<Rightarrow> [] | x # xs \<Rightarrow> if in_range a b x then [(Suc i, xs)] else [])"
| "step Digit (i, s) = (case s of [] \<Rightarrow> [] | x # xs \<Rightarrow> if is_digit x then [(Suc i, xs)] else [])"
| "step (Seq r1 r2) st = concat (map (step r2) (step r1 st))"
| "step (Opt r) st = step r st @ [st]"
| "step Eps st = [st]"
| "step Bol (i, s) = (if i = 0 then [(i, s)] else [])"
| "step Eol (i, s) = (if s = [] \<or> s = [CHR 0x0A] then [(i, s)] else [])"

fun repeated :: "nat \<Rightarrow> regex \<Rightarrow> regex" where
  "repeated 0 r = Eps"
| "repeated (Suc n) r = Seq r (repeated n r)"

definition regex_search :: "regex \<Rightarrow> string \<Rightarrow> bool" where
  "regex_search r s = list_ex (\<lambda>i. step r (i, drop i s) \<noteq> []) [0..<Suc (length s)]"

definition RegexValidator :: "regex \<Rightarrow> string \<Rightarrow> error + unit" where
  "RegexValidator r v = (if regex_search r v then Inr () else Inl ValidationError)"

definition phone_regex :: regex where
  "phone_regex =
     Seq Bol (Seq (Opt (Seq (Chr CHR ''+'') (Seq (Chr CHR ''9'') (Chr CHR ''1''))))
       (Seq (Range CHR ''6'' CHR ''9'') (Seq (repeated 9 Digit) Eol)))"

text \<open>
  The strings that the validator is claimed to accept: ten decimal digits of which the
  first is 6 to 9, optionally preceded by \<open>+91\<close>.
\<close>

definition is_mobile :: "string \<Rightarrow> bool" where
  "is_mobile t = (length t = 10 \<and> (\<forall>c \<in> set t. is_digit c) \<and> in_range CHR ''6'' CHR ''9'' (hd t))"

definition claimed_phone :: "string \<Rightarrow> bool" where
  "claimed_phone s = (is_mobile s \<or> (\<exists>t. s = ''+91'' @ t \<and> is_mobile t))"

text \<open>What the part of the pattern after the optional prefix matches.\<close>

definition subscriber :: "string \<Rightarrow> bool" where
  "subscriber s = (\<exists>x xs. s = x # xs \<and> in_range CHR ''6'' CHR ''9'' x \<and> 9 \<le> length xs \<and>
      (\<forall>c \<in> set (take 9 xs). is_digit c) \<and> (drop 9 xs = [] \<or> drop 9 xs = [CHR 0x0A]))"

subsection \<open>Signal handlers: profile provisioning\<close>

text \<open>
  \<open>x or y\<close> on strings: \<open>x\<close> when it is non-empty, \<open>y\<close> otherwise.
\<close>

definition str_or :: "string \<Rightarrow> string \<Rightarrow> string" where
  "str_or x y = (if x \<noteq> [] then x else y)"

text \<open>
  The object that \<open>FarmerProfile.objects.create\<close> builds in the farmer branch of
  \<open>create_user_profile\<close>; the fields not passed take their defaults.
\<close>

definition FarmerProfile_init :: "'a User_scheme \<Rightarrow> nat \<Rightarrow> FarmerProfile" where
  "FarmerProfile_init instance uid =
     \<lparr>pk = None, FarmerProfile.user = uid,
      farm_name = username instance @ [CHR 0x27] @ ''s Farm'',
      farm_size = ''small'', farm_size_acres = 1, farming_type = ''conventional'',
      farming_experience_years = 1,
      farm_address = str_or (full_address instance) ''Not specified'',
      organic_certified = False, organic_certification_number = '''', average_rating = 0,
      total_reviews = 0, is_active_seller = True, subscription_plan = ''basic''\<rparr>"

text \<open>
  \<^verbatim>\<open>
  @receiver(post_save, sender=User)
  def create_user_profile(sender, instance, created, **kwargs):
      if created:
          if instance.user_type == 'farmer':
              FarmerProfile.objects.create(user=instance, farm_name=..., farm_size='small',
                  farm_size_acres=1.0, farming_experience_years=1,
                  farm_address=instance.full_address or "Not specified")
          elif instance.user_type in ['buyer', 'vendor']:
              BuyerProfile.objects.create(user=instance)
  \<close>
  Passing \<open>user=instance\<close> needs a saved account (otherwise \<open>ValueError\<close>) and puts the
  new object into the account object's cache of the reverse relation.
\<close>

definition create_user_profile :: "UserObject \<Rightarrow> bool \<Rightarrow> db \<Rightarrow> UserObject outcome" where
  "create_user_profile instance created d =
     (if created then
        if user_type instance = ''farmer'' then
          (case pk instance of
             None \<Rightarrow> Raised ValueError d
           | Some uid \<Rightarrow>
              (case FarmerProfile_save (FarmerProfile_init instance uid) d of
                 Raised e d' \<Rightarrow> Raised e d'
               | Done p d' \<Rightarrow> Done (instance\<lparr>farmer_profile := Some p\<rparr>) d'))
        else if user_type instance \<in> set [''buyer'', ''vendor''] then
          (case pk instance of
             None \<Rightarrow> Raised ValueError d
           | Some uid \<Rightarrow>
              (case BuyerProfile_save (BuyerProfile_init uid) d of
                 Raised e d' \<Rightarrow> Raised e d'
               | Done p d' \<Rightarrow> Done (instance\<lparr>buyer_profile := Some p\<rparr>) d'))
        else Done instance d
      else Done instance d)"

text \<open>
  Reading \<open>instance.farmer_profile\<close> (and so \<open>hasattr\<close>) returns the cached object, or
  else the row of the account read from the table; without one it raises
  \<open>RelatedObjectDoesNotExist\<close>, an \<open>AttributeError\<close>, and \<open>hasattr\<close> is false.
\<close>

definition get_farmer_profile :: "UserObject \<Rightarrow> db \<Rightarrow> FarmerProfile option" where
  "get_farmer_profile instance d =
     (case farmer_profile instance of
        Some p \<Rightarrow> Some p
      | None \<Rightarrow>
         (case pk instance of
            None \<Rightarrow> None
          | Some uid \<Rightarrow> find (\<lambda>r. FarmerProfile.user r = uid) (accounts_farmer_profile d)))"

definition get_buyer_profile :: "UserObject \<Rightarrow> db \<Rightarrow> BuyerProfile option" where
  "get_buyer_profile instance d =
     (case buyer_profile instance of
        Some p \<Rightarrow> Some p
      | None \<Rightarrow>
         (case pk instance of
            None \<Rightarrow> None
          | Some uid \<Rightarrow> find (\<lambda>r. BuyerProfile.user r = uid) (accounts_buyer_profile d)))"

text \<open>
  \<^verbatim>\<open>
  @receiver(post_save, sender=User)
  def save_user_profile(sender, instance, **kwargs):
      try:
          if instance.user_type == 'farmer' and hasattr(instance, 'farmer_profile'):
              instance.farmer_profile.save()
          elif instance.user_type in ['buyer', 'vendor'] and hasattr(instance, 'buyer_profile'):
              instance.buyer_profile.save()
      except Exception:
          pass  # Profile might not exist yet
  \<close>
  \<open>save_user_profile_try\<close> is the body of the \<open>try\<close>.
\<close>

definition save_user_profile_try :: "UserObject \<Rightarrow> db \<Rightarrow> UserObject outcome" where
  "save_user_profile_try instance d =
     (if user_type instance = ''farmer'' \<and> get_farmer_profile instance d \<noteq> None then
        (case get_farmer_profile instance d of
           None \<Rightarrow> Done instance d
         | Some p \<Rightarrow>
            (case FarmerProfile_save p d of
               Raised e d' \<Rightarrow> Raised e d'
             | Done p' d' \<Rightarrow> Done (instance\<lparr>farmer_profile := Some p'\<rparr>) d'))
      else if user_type instance \<in> set [''buyer'', ''vendor'']
              \<and> get_buyer_profile instance d \<noteq> None then
        (case get_buyer_profile instance d of
           None \<Rightarrow> Done instance d
         | Some p \<Rightarrow>
            (case BuyerProfile_save p d of
               Raised e d' \<Rightarrow> Raised e d'
             | Done p' d' \<Rightarrow> Done (instance\<lparr>buyer_profile := Some p'\<rparr>) d'))
      else Done instance d)"

definition save_user_profile :: "UserObject \<Rightarrow> db \<Rightarrow> UserObject outcome" where
  "save_user_profile instance d =
     (case save_user_profile_try instance d of
        Raised e d' \<Rightarrow> Done instance d'
      | Done instance' d' \<Rightarrow> Done instance' d')"

text \<open>
  \<^verbatim>\<open>
  def save(self, *args, **kwargs):
      super().save(*args, **kwargs)
      # Resize profile picture if it exists
      ...
  \<close>
  \<open>User.save\<close>: the row is written under the constraints of \<open>accounts_user\<close>
  (\<open>username\<close> and \<open>phone_number\<close> are unique), then \<open>post_save\<close> runs the two handlers
  in the order of their registration, \<open>created\<close> telling whether the row was inserted; an
  error raised by a handler leaves \<open>save\<close>. The resizing of the picture that follows is
  outside the model.
\<close>

definition User_constraints :: "User \<Rightarrow> User list \<Rightarrow> bool" where
  "User_constraints u others =
     (\<not> list_ex (\<lambda>r. username r = username u) others \<and>
      \<not> list_ex (\<lambda>r. phone_number r = phone_number u) others)"

definition User_save :: "UserObject \<Rightarrow> db \<Rightarrow> UserObject outcome" where
  "User_save self d =
     (case save_table User_constraints (User.truncate self) (accounts_user d) of
        Inl e \<Rightarrow> Raised e d
      | Inr (row, tbl) \<Rightarrow>
         (let created = (case pk self of None \<Rightarrow> True | Some k \<Rightarrow> \<not> has_pk k (accounts_user d));
              self1 = self\<lparr>pk := pk row\<rparr>;
              d1 = d\<lparr>accounts_user := tbl\<rparr>
          in case create_user_profile self1 created d1 of
               Raised e d2 \<Rightarrow> Raised e d2
             | Done self2 d2 \<Rightarrow> save_user_profile self2 d2))"

subsection \<open>The invariant of the purchase aggregates\<close>


section \<open>Example data\<close>

text \<open>One farmer account with two addresses, the first of which is the default.\<close>

definition ravi :: User where
  "ravi = \<lparr>pk = Some 1, username = ''ravi'', user_type = ''farmer'',
      phone_number = ''9876543210'', address_line_1 = ''12 Canal Road'', address_line_2 = '''',
      city = ''Guntur'', state = ''Andhra Pradesh'', postal_code = ''522001'',
      country = ''India'', is_verified = False, verification_status = ''pending'',
      business_name = '''', business_registration_number = '''', tax_id = ''''\<rparr>"

definition home :: Address where
  "home = \<lparr>pk = Some 1, user = 1, address_type = ''home'', title = ''Home'',
      address_line_1 = ''12 Canal Road'', address_line_2 = '''', city = ''Guntur'',
      state = ''Andhra Pradesh'', postal_code = ''522001'', country = ''India'',
      is_default = True, is_active = True\<rparr>"

definition office :: Address where
  "office = home\<lparr>pk := Some 2, address_type := ''office'', title := ''Office'',
      is_default := False\<rparr>"

definition main_farm :: Address where
  "main_farm = home\<lparr>pk := None, address_type := ''farm'', title := ''Main Farm''\<rparr>"

definition db0 :: db where
  "db0 = \<lparr>accounts_user = [ravi], accounts_farmer_profile = [], accounts_buyer_profile = [],
      accounts_address = [home, office]\<rparr>"

text \<open>A buyer account whose profile records two orders.\<close>

definition asha :: User where
  "asha = ravi\<lparr>pk := Some 2, username := ''asha'', user_type := ''buyer'',
      phone_number := ''+919123456780''\<rparr>"

definition asha_profile :: BuyerProfile where
  "asha_profile = (BuyerProfile_init 2)\<lparr>pk := Some 1, total_orders := 2, total_spent := 100,
      average_order_value := 50\<rparr>"

definition db1 :: db where
  "db1 = db0\<lparr>accounts_user := [ravi, asha], accounts_buyer_profile := [asha_profile]\<rparr>"

text \<open>An account without address, a stored farmer profile, and three more buyer profiles.\<close>

definition anil :: User where
  "anil = ravi\<lparr>pk := Some 3, username := ''anil'', phone_number := ''9000000001'',
      User.address_line_1 := [], User.city := [], User.state := [], User.postal_code := [],
      User.country := []\<rparr>"

definition ravi_farm :: FarmerProfile where
  "ravi_farm = (FarmerProfile_init ravi 1)\<lparr>pk := Some 1\<rparr>"



definition lavish :: BuyerProfile where
  "lavish = asha_profile\<lparr>total_spent := 10000000000\<rparr>"

section \<open>Properties of the table operations\<close>

lemmas fixture_defs = ravi_def home_def office_def main_farm_def db0_def
lemmas fixture_defs2 =
  asha_def asha_profile_def db1_def User_object_def User.extend_def UserObject.fields_def
lemmas table_defs = save_table_def next_id_def has_pk_def map_filter_def Let_def
lemmas Address_defs =
  Address_save_def Address_super_save_def clear_defaults_def Address_constraints_def

lemma fold_max_ge: "(a::nat) \<le> fold max xs a"
proof (induction xs arbitrary: a)
  case Nil then show ?case by simp
next
  case (Cons x xs)
  have "max x a \<le> fold max xs (max x a)" by (rule Cons.IH)
  then show ?case by simp
qed

lemma fold_max_mem: "x \<in> set xs \<Longrightarrow> x \<le> fold max xs (a::nat)"
proof (induction xs arbitrary: a)
  case Nil then show ?case by simp
next
  case (Cons y ys)
  show ?case
  proof (cases "x = y")
    case True
    have "max y a \<le> fold max ys (max y a)" by (rule fold_max_ge)
    with True show ?thesis by simp
  next
    case False
    with Cons show ?thesis by simp
  qed
qed

lemma next_id_fresh: "r \<in> set tbl \<Longrightarrow> pk r = Some k \<Longrightarrow> k < next_id tbl"
proof -
  assume "r \<in> set tbl" "pk r = Some k"
  then have "k \<in> set (List.map_filter pk tbl)"
    by (force simp: map_filter_def)
  then have "k \<le> fold max (List.map_filter pk tbl) 0" by (rule fold_max_mem)
  then show ?thesis by (simp add: next_id_def)
qed

lemma has_pk_iff: "has_pk k tbl \<longleftrightarrow> (\<exists>r \<in> set tbl. pk r = Some k)"
  by (simp add: has_pk_def list_ex_iff)

lemma not_has_pk_next_id: "\<not> has_pk (next_id tbl) tbl"
  using next_id_fresh by (fastforce simp: has_pk_iff)

lemma filter_replace_pk:
  "pk x = Some k \<Longrightarrow>
   filter (\<lambda>r. pk r \<noteq> Some k) (map (\<lambda>r. if pk r = Some k then x else r) tbl) =
   filter (\<lambda>r. pk r \<noteq> Some k) tbl"
  by (induction tbl) auto

lemma filter_no_pk: "\<not> has_pk k tbl \<Longrightarrow> filter (\<lambda>r. pk r \<noteq> Some k) tbl = tbl"
  by (simp add: has_pk_iff filter_id_conv)

lemma save_table_cases:
  assumes "save_table ok inst tbl = Inr (inst', tbl')"
  obtains k where "inst' = inst\<lparr>pk := Some k\<rparr>" "pk inst = Some k \<or> (pk inst = None \<and> k = next_id tbl)"
     "ok inst' (filter (\<lambda>r. pk r \<noteq> Some k) tbl)"
     "has_pk k tbl \<Longrightarrow> tbl' = map (\<lambda>r. if pk r = Some k then inst' else r) tbl"
     "\<not> has_pk k tbl \<Longrightarrow> tbl' = tbl @ [inst']"
  using assms
  by (auto simp: save_table_def Let_def split: if_splits option.splits)

lemma save_table_pk: "save_table ok inst tbl = Inr (inst', tbl') \<Longrightarrow> pk inst' \<noteq> None"
  by (erule save_table_cases) simp

lemma save_table_mem: "save_table ok inst tbl = Inr (inst', tbl') \<Longrightarrow> inst' \<in> set tbl'"
  by (erule save_table_cases) (cases "has_pk (the (pk inst')) tbl"; force simp: has_pk_iff)

lemma save_table_others:
  "save_table ok inst tbl = Inr (inst', tbl') \<Longrightarrow>
   filter (\<lambda>r. pk r \<noteq> pk inst') tbl' = filter (\<lambda>r. pk r \<noteq> pk inst') tbl"
  by (erule save_table_cases) (cases "has_pk (the (pk inst')) tbl"; simp add: filter_replace_pk)


lemma save_table_Inl: "save_table ok inst tbl = Inl e \<Longrightarrow> e = IntegrityError"
  by (auto simp: save_table_def Let_def split: if_splits)

section \<open>Default-address exclusivity\<close>


lemma Address_super_save_Done:
  assumes "Address_super_save A d = Done A' d'"
  shows "save_table (Address_constraints d) A (accounts_address d) = Inr (A', accounts_address d')"
    and "d' = d\<lparr>accounts_address := accounts_address d'\<rparr>"
proof -
  obtain tbl where st: "save_table (Address_constraints d) A (accounts_address d) = Inr (A', tbl)"
    and d': "d' = d\<lparr>accounts_address := tbl\<rparr>"
    using assms by (auto simp: Address_super_save_def split: sum.splits)
  from d' have tbl: "accounts_address d' = tbl" by simp
  show "save_table (Address_constraints d) A (accounts_address d) = Inr (A', accounts_address d')"
    using st tbl by simp
  show "d' = d\<lparr>accounts_address := accounts_address d'\<rparr>"
    unfolding tbl by (rule d')
qed

lemma Address_super_save_Raised:
  assumes "Address_super_save A d = Raised e d'"
  shows "d' = d \<and> e = IntegrityError"
proof (cases "save_table (Address_constraints d) A (accounts_address d)")
  case (Inl e')
  with assms have "d' = d" "e = e'" by (simp_all add: Address_super_save_def)
  with Inl show ?thesis by (simp add: save_table_Inl)
next
  case (Inr p)
  with assms show ?thesis by (cases p) (simp add: Address_super_save_def)
qed

lemma save_table_inst:
  "save_table ok inst tbl = Inr (inst', tbl') \<Longrightarrow> inst' = inst\<lparr>pk := pk inst'\<rparr>"
  by (erule save_table_cases) simp



text \<open>
  C8. Saving an address whose \<open>is_default\<close> is not set changes no row of any other
  address: a save that raises leaves the database as it was, and a save that returns leaves
  every row of another primary key as it was, in particular its \<open>is_default\<close> flag. The
  saved row itself is stored as a non-default, so no address is promoted.
\<close>

theorem Address_save_non_default_frame:
  "\<not> is_default A \<Longrightarrow>
     (\<forall>e d'. Address_save A d = Raised e d' \<longrightarrow> d' = d) \<and>
     (\<forall>A' d'. Address_save A d = Done A' d' \<longrightarrow>
         pk A' \<noteq> None \<and> \<not> is_default A' \<and> d' = d\<lparr>accounts_address := accounts_address d'\<rparr> \<and>
         filter (\<lambda>r. pk r \<noteq> pk A') (accounts_address d') =
         filter (\<lambda>r. pk r \<noteq> pk A') (accounts_address d))"
proof (intro conjI allI impI)
  fix e d'
  assume "\<not> is_default A" "Address_save A d = Raised e d'"
  then show "d' = d" by (simp add: Address_save_def Address_super_save_Raised)
next
  fix A' d'
  assume nd: "\<not> is_default A" and dn: "Address_save A d = Done A' d'"
  from nd dn have ss: "Address_super_save A d = Done A' d'" by (simp add: Address_save_def)
  note st = Address_super_save_Done(1)[OF ss]
  show "pk A' \<noteq> None" using st by (rule save_table_pk)
  have "A' = A\<lparr>pk := pk A'\<rparr>" using st by (rule save_table_inst)
  then have "is_default A' = is_default A" by (metis Address.select_convs(10) Address.surjective Model.update_convs(1))
  with nd show "\<not> is_default A'" by simp
  show "d' = d\<lparr>accounts_address := accounts_address d'\<rparr>" by (rule Address_super_save_Done(2)[OF ss])
  show "filter (\<lambda>r. pk r \<noteq> pk A') (accounts_address d') =
         filter (\<lambda>r. pk r \<noteq> pk A') (accounts_address d)"
    using st by (rule save_table_others)
qed

theorem Address_save_non_default_frame_witness:
  "\<not> is_default (home\<lparr>is_default := False\<rparr>) \<and>
   Address_save (home\<lparr>is_default := False\<rparr>) db0 =
     Done (home\<lparr>is_default := False\<rparr>)
       (db0\<lparr>accounts_address := [home\<lparr>is_default := False\<rparr>, office]\<rparr>) \<and>
   filter is_default (accounts_address (db_of (Address_save (home\<lparr>is_default := False\<rparr>) db0))) = []"
proof -
  have h: "\<not> is_default (home\<lparr>is_default := False\<rparr>)" by simp
  show ?thesis
    using h Address_save_non_default_frame[OF h, of db0]
    by (simp add: fixture_defs table_defs Address_defs)
qed

section \<open>Profile provisioning\<close>

lemma save_table_insert:
  assumes "pk inst = None" "ok (inst\<lparr>pk := Some (next_id tbl)\<rparr>) tbl"
  shows "save_table ok inst tbl =
           Inr (inst\<lparr>pk := Some (next_id tbl)\<rparr>, tbl @ [inst\<lparr>pk := Some (next_id tbl)\<rparr>])"
  using assms by (simp add: save_table_def Let_def filter_no_pk not_has_pk_next_id)

lemma save_table_insert_rejected:
  assumes "pk inst = None" "\<not> ok (inst\<lparr>pk := Some (next_id tbl)\<rparr>) tbl"
  shows "save_table ok inst tbl = Inl IntegrityError"
  using assms by (simp add: save_table_def Let_def filter_no_pk not_has_pk_next_id)

lemma round_half_even_of_int [simp]: "round_half_even (of_int n) = n"
  by (simp add: round_half_even_def)

lemma quantize_0 [simp]: "quantize 0 places = 0"
  using round_half_even_of_int[of 0] by (simp add: quantize_def)

lemma quantize_1 [simp]: "quantize 1 places = 1"
proof -
  have "round_half_even (10 ^ places) = 10 ^ places"
    using round_half_even_of_int[of "10 ^ places"] by simp
  then show ?thesis by (simp add: quantize_def)
qed

lemma format_number_0 [simp]: "format_number 0 m n = Inr 0"
  by (simp add: format_number_def)

lemma format_number_1_10_2 [simp]: "format_number 1 10 2 = Inr 1"
  by (simp add: format_number_def)

lemma filter_append_new:
  "\<not> list_ex P tbl \<Longrightarrow> P p \<Longrightarrow> filter P (tbl @ [p]) = [p]"
  by (simp add: list_ex_iff filter_empty_conv)

lemma FarmerProfile_create:
  assumes "has_pk uid (accounts_user d)"
    and "\<not> list_ex (\<lambda>r. FarmerProfile.user r = uid) (accounts_farmer_profile d)"
  shows "FarmerProfile_save (FarmerProfile_init instance uid) d =
           Done ((FarmerProfile_init instance uid)\<lparr>pk := Some (next_id (accounts_farmer_profile d))\<rparr>)
             (d\<lparr>accounts_farmer_profile := accounts_farmer_profile d @
                [(FarmerProfile_init instance uid)\<lparr>pk := Some (next_id (accounts_farmer_profile d))\<rparr>]\<rparr>)"
proof -
  let ?init = "FarmerProfile_init instance uid"
  let ?tbl = "accounts_farmer_profile d"
  have q: "?init\<lparr>farm_size_acres := 1, average_rating := 0\<rparr> = ?init"
    by (simp add: FarmerProfile_init_def)
  have "FarmerProfile_constraints d (?init\<lparr>pk := Some (next_id ?tbl)\<rparr>) ?tbl"
    using assms by (simp add: FarmerProfile_constraints_def FarmerProfile_init_def)
  moreover have "pk ?init = None" by (simp add: FarmerProfile_init_def)
  ultimately have "save_table (FarmerProfile_constraints d) ?init ?tbl =
      Inr (?init\<lparr>pk := Some (next_id ?tbl)\<rparr>, ?tbl @ [?init\<lparr>pk := Some (next_id ?tbl)\<rparr>])"
    by (simp add: save_table_insert)
  moreover have "farm_size_acres ?init = 1" "average_rating ?init = 0"
    by (simp_all add: FarmerProfile_init_def)
  ultimately show ?thesis
    by (simp add: FarmerProfile_save_def q)
qed

lemma FarmerProfile_create_rejected:
  assumes "list_ex (\<lambda>r. FarmerProfile.user r = uid) (accounts_farmer_profile d)"
  shows "FarmerProfile_save (FarmerProfile_init instance uid) d = Raised IntegrityError d"
proof -
  let ?init = "FarmerProfile_init instance uid"
  let ?tbl = "accounts_farmer_profile d"
  have q: "?init\<lparr>farm_size_acres := 1, average_rating := 0\<rparr> = ?init"
    by (simp add: FarmerProfile_init_def)
  have "\<not> FarmerProfile_constraints d (?init\<lparr>pk := Some (next_id ?tbl)\<rparr>) ?tbl"
    using assms by (simp add: FarmerProfile_constraints_def FarmerProfile_init_def)
  moreover have "pk ?init = None" by (simp add: FarmerProfile_init_def)
  ultimately have "save_table (FarmerProfile_constraints d) ?init ?tbl = Inl IntegrityError"
    by (simp add: save_table_insert_rejected)
  moreover have "farm_size_acres ?init = 1" "average_rating ?init = 0"
    by (simp_all add: FarmerProfile_init_def)
  ultimately show ?thesis
    by (simp add: FarmerProfile_save_def q)
qed

lemma BuyerProfile_create:
  assumes "has_pk uid (accounts_user d)"
    and "\<not> list_ex (\<lambda>r. BuyerProfile.user r = uid) (accounts_buyer_profile d)"
  shows "BuyerProfile_save (BuyerProfile_init uid) d =
           Done ((BuyerProfile_init uid)\<lparr>pk := Some (next_id (accounts_buyer_profile d))\<rparr>)
             (d\<lparr>accounts_buyer_profile := accounts_buyer_profile d @
                [(BuyerProfile_init uid)\<lparr>pk := Some (next_id (accounts_buyer_profile d))\<rparr>]\<rparr>)"
proof -
  let ?init = "BuyerProfile_init uid"
  let ?tbl = "accounts_buyer_profile d"
  have q: "?init\<lparr>total_spent := 0, average_order_value := 0\<rparr> = ?init"
    by (simp add: BuyerProfile_init_def)
  have "BuyerProfile_constraints d (?init\<lparr>pk := Some (next_id ?tbl)\<rparr>) ?tbl"
    using assms by (simp add: BuyerProfile_constraints_def BuyerProfile_init_def)
  moreover have "pk ?init = None" by (simp add: BuyerProfile_init_def)
  ultimately have "save_table (BuyerProfile_constraints d) ?init ?tbl =
      Inr (?init\<lparr>pk := Some (next_id ?tbl)\<rparr>, ?tbl @ [?init\<lparr>pk := Some (next_id ?tbl)\<rparr>])"
    by (simp add: save_table_insert)
  moreover have "total_spent ?init = 0" "average_order_value ?init = 0"
    by (simp_all add: BuyerProfile_init_def)
  ultimately show ?thesis
    by (simp add: BuyerProfile_save_def q)
qed

lemma BuyerProfile_create_rejected:
  assumes "list_ex (\<lambda>r. BuyerProfile.user r = uid) (accounts_buyer_profile d)"
  shows "BuyerProfile_save (BuyerProfile_init uid) d = Raised IntegrityError d"
proof -
  let ?init = "BuyerProfile_init uid"
  let ?tbl = "accounts_buyer_profile d"
  have q: "?init\<lparr>total_spent := 0, average_order_value := 0\<rparr> = ?init"
    by (simp add: BuyerProfile_init_def)
  have "\<not> BuyerProfile_constraints d (?init\<lparr>pk := Some (next_id ?tbl)\<rparr>) ?tbl"
    using assms by (simp add: BuyerProfile_constraints_def BuyerProfile_init_def)
  moreover have "pk ?init = None" by (simp add: BuyerProfile_init_def)
  ultimately have "save_table (BuyerProfile_constraints d) ?init ?tbl = Inl IntegrityError"
    by (simp add: save_table_insert_rejected)
  moreover have "total_spent ?init = 0" "average_order_value ?init = 0"
    by (simp_all add: BuyerProfile_init_def)
  ultimately show ?thesis
    by (simp add: BuyerProfile_save_def q)
qed

lemma join_nonempty: "xs \<noteq> [] \<Longrightarrow> \<forall>x \<in> set xs. x \<noteq> [] \<Longrightarrow> join sep xs \<noteq> []"
  by (induction sep xs rule: join.induct) simp_all

lemma full_address_empty_iff:
  "full_address instance = [] \<longleftrightarrow> (\<forall>part \<in> set (address_parts instance). part = [])"
proof
  assume e: "full_address instance = []"
  show "\<forall>part \<in> set (address_parts instance). part = []"
  proof (rule ccontr)
    assume "\<not> (\<forall>part \<in> set (address_parts instance). part = [])"
    then have "filter (\<lambda>part. part \<noteq> []) (address_parts instance) \<noteq> []"
      by (simp add: filter_empty_conv)
    then have "join '', '' (filter (\<lambda>part. part \<noteq> []) (address_parts instance)) \<noteq> []"
      by (rule join_nonempty) simp
    with e show False by (simp add: full_address_def)
  qed
next
  assume "\<forall>part \<in> set (address_parts instance). part = []"
  then have "filter (\<lambda>part. part \<noteq> []) (address_parts instance) = []"
    by (simp add: filter_empty_conv)
  then show "full_address instance = []" by (simp add: full_address_def)
qed

lemma country_in_parts: "User.country instance \<in> set (address_parts instance)"
  by (simp add: address_parts_def)

lemma create_user_profile_existing:
  assumes "pk instance = Some uid"
    and "(user_type instance = ''farmer'' \<and>
            list_ex (\<lambda>r. FarmerProfile.user r = uid) (accounts_farmer_profile d)) \<or>
         (user_type instance \<in> {''buyer'', ''vendor''} \<and>
            list_ex (\<lambda>r. BuyerProfile.user r = uid) (accounts_buyer_profile d))"
  shows "create_user_profile instance created d =
           (if created then Raised IntegrityError d else Done instance d)"
  using assms
  by (auto simp: create_user_profile_def FarmerProfile_create_rejected
        BuyerProfile_create_rejected)

lemma FarmerProfile_save_Done:
  assumes "FarmerProfile_save self d = Done self' d'"
  obtains k row where "self' = self\<lparr>pk := Some k\<rparr>"
    and "row \<in> set (accounts_farmer_profile d')"
    and "row = self\<lparr>farm_size_acres := quantize (farm_size_acres self) 2,
                    average_rating := quantize (average_rating self) 2, pk := Some k\<rparr>"
    and "accounts_buyer_profile d' = accounts_buyer_profile d"
    and "accounts_user d' = accounts_user d"
proof -
  from assms obtain acres rating row tbl
    where a: "format_number (farm_size_acres self) 10 2 = Inr acres"
      and r: "format_number (average_rating self) 3 2 = Inr rating"
      and st: "save_table (FarmerProfile_constraints d)
                 (self\<lparr>farm_size_acres := acres, average_rating := rating\<rparr>)
                 (accounts_farmer_profile d) = Inr (row, tbl)"
      and s: "self' = self\<lparr>pk := pk row\<rparr>"
      and d': "d' = d\<lparr>accounts_farmer_profile := tbl\<rparr>"
    by (auto simp: FarmerProfile_save_def split: sum.splits)
  from a have a': "acres = quantize (farm_size_acres self) 2"
    by (auto simp: format_number_def Let_def split: if_splits)
  from r have r': "rating = quantize (average_rating self) 2"
    by (auto simp: format_number_def Let_def split: if_splits)
  obtain k where "row = self\<lparr>farm_size_acres := acres, average_rating := rating\<rparr>\<lparr>pk := Some k\<rparr>"
    using st by (rule save_table_cases)
  then have "row = self\<lparr>farm_size_acres := quantize (farm_size_acres self) 2,
                    average_rating := quantize (average_rating self) 2, pk := Some k\<rparr>"
    "pk row = Some k"
    unfolding a' r' by simp_all
  moreover have "row \<in> set (accounts_farmer_profile d')"
    using save_table_mem[OF st] d' by simp
  ultimately show ?thesis using s d' that by simp
qed

lemma BuyerProfile_save_Done:
  assumes "BuyerProfile_save self d = Done self' d'"
  obtains k row where "self' = self\<lparr>pk := Some k\<rparr>"
    and "row \<in> set (accounts_buyer_profile d')"
    and "row = self\<lparr>total_spent := quantize (total_spent self) 2,
                    average_order_value := quantize (average_order_value self) 2,
                    pk := Some k\<rparr>"
    and "0 \<le> total_orders self"
    and "accounts_farmer_profile d' = accounts_farmer_profile d"
    and "accounts_user d' = accounts_user d"
proof -
  from assms obtain spent average row tbl
    where a: "format_number (total_spent self) 12 2 = Inr spent"
      and r: "format_number (average_order_value self) 10 2 = Inr average"
      and st: "save_table (BuyerProfile_constraints d)
                 (self\<lparr>total_spent := spent, average_order_value := average\<rparr>)
                 (accounts_buyer_profile d) = Inr (row, tbl)"
      and s: "self' = self\<lparr>pk := pk row\<rparr>"
      and d': "d' = d\<lparr>accounts_buyer_profile := tbl\<rparr>"
    by (auto simp: BuyerProfile_save_def split: sum.splits)
  from a have a': "spent = quantize (total_spent self) 2"
    by (auto simp: format_number_def Let_def split: if_splits)
  from r have r': "average = quantize (average_order_value self) 2"
    by (auto simp: format_number_def Let_def split: if_splits)
  obtain k where "row = self\<lparr>total_spent := spent, average_order_value := average\<rparr>\<lparr>pk := Some k\<rparr>"
    using st by (rule save_table_cases)
  then have "row = self\<lparr>total_spent := quantize (total_spent self) 2,
                    average_order_value := quantize (average_order_value self) 2,
                    pk := Some k\<rparr>"
    "pk row = Some k"
    unfolding a' r' by simp_all
  moreover have "row \<in> set (accounts_buyer_profile d')"
    using save_table_mem[OF st] d' by simp
  moreover have "0 \<le> total_orders self"
    using st by (auto elim!: save_table_cases simp: BuyerProfile_constraints_def)
  ultimately show ?thesis using s d' that by simp
qed

lemma FarmerProfile_save_Raised: "FarmerProfile_save self d = Raised e d' \<Longrightarrow> d' = d"
  by (auto simp: FarmerProfile_save_def split: sum.splits)

lemma BuyerProfile_save_Raised: "BuyerProfile_save self d = Raised e d' \<Longrightarrow> d' = d"
  by (auto simp: BuyerProfile_save_def split: sum.splits)

lemma create_user_profile_Done:
  assumes "create_user_profile instance True d = Done instance1 d1"
  shows "pk instance1 = pk instance \<and> user_type instance1 = user_type instance \<and>
     (user_type instance = ''farmer'' \<longrightarrow>
        (\<exists>uid. pk instance = Some uid \<and>
           list_ex (\<lambda>r. FarmerProfile.user r = uid) (accounts_farmer_profile d1))) \<and>
     (user_type instance \<in> {''buyer'', ''vendor''} \<longrightarrow>
        (\<exists>uid. pk instance = Some uid \<and>
           list_ex (\<lambda>r. BuyerProfile.user r = uid) (accounts_buyer_profile d1))) \<and>
     (user_type instance \<notin> {''farmer'', ''buyer'', ''vendor''} \<longrightarrow> instance1 = instance \<and> d1 = d)"
proof (cases "user_type instance = ''farmer''")
  case True
  with assms obtain uid p where uid: "pk instance = Some uid"
    and p: "FarmerProfile_save (FarmerProfile_init instance uid) d = Done p d1"
    and i: "instance1 = instance\<lparr>farmer_profile := Some p\<rparr>"
    by (auto simp: create_user_profile_def split: option.splits outcome.splits)
  from p obtain k row where "row \<in> set (accounts_farmer_profile d1)"
    "row = (FarmerProfile_init instance uid)\<lparr>farm_size_acres := quantize (farm_size_acres (FarmerProfile_init instance uid)) 2,
                    average_rating := quantize (average_rating (FarmerProfile_init instance uid)) 2, pk := Some k\<rparr>"
    by (rule FarmerProfile_save_Done)
  then have "row \<in> set (accounts_farmer_profile d1)" "FarmerProfile.user row = uid"
    by (simp_all add: FarmerProfile_init_def)
  then have "list_ex (\<lambda>r. FarmerProfile.user r = uid) (accounts_farmer_profile d1)"
    by (auto simp: list_ex_iff)
  with True uid i show ?thesis by simp
next
  case nf: False
  show ?thesis
  proof (cases "user_type instance \<in> {''buyer'', ''vendor''}")
    case True
    with nf assms obtain uid p where uid: "pk instance = Some uid"
      and p: "BuyerProfile_save (BuyerProfile_init uid) d = Done p d1"
      and i: "instance1 = instance\<lparr>buyer_profile := Some p\<rparr>"
      by (auto simp: create_user_profile_def split: option.splits outcome.splits)
    from p obtain k row where "row \<in> set (accounts_buyer_profile d1)"
      "row = (BuyerProfile_init uid)\<lparr>total_spent := quantize (total_spent (BuyerProfile_init uid)) 2,
                    average_order_value := quantize (average_order_value (BuyerProfile_init uid)) 2,
                    pk := Some k\<rparr>"
      by (rule BuyerProfile_save_Done)
    then have "row \<in> set (accounts_buyer_profile d1)" "BuyerProfile.user row = uid"
      by (simp_all add: BuyerProfile_init_def)
    then have "list_ex (\<lambda>r. BuyerProfile.user r = uid) (accounts_buyer_profile d1)"
      by (auto simp: list_ex_iff)
    with True nf uid i show ?thesis by simp
  next
    case False
    with nf assms show ?thesis by (simp add: create_user_profile_def)
  qed
qed

text \<open>
  C2. At the creation event of a farmer account (the account row is in the table and no
  farmer profile refers to it yet), \<open>create_user_profile\<close> returns and has inserted
  exactly one \<open>FarmerProfile\<close> of that account: farm name \<open>username's Farm\<close>, farm size
  \<open>small\<close>, one year of experience, and the formatted address of the account as farm
  address, or \<open>Not specified\<close> when that address is empty.
\<close>

theorem create_user_profile_farmer:
  assumes "user_type instance = ''farmer''"
    and "pk instance = Some uid"
    and "has_pk uid (accounts_user d)"
    and "\<not> list_ex (\<lambda>r. FarmerProfile.user r = uid) (accounts_farmer_profile d)"
  shows "\<exists>p. create_user_profile instance True d =
             Done (instance\<lparr>farmer_profile := Some p\<rparr>)
               (d\<lparr>accounts_farmer_profile := accounts_farmer_profile d @ [p]\<rparr>) \<and>
           filter (\<lambda>r. FarmerProfile.user r = uid) (accounts_farmer_profile d @ [p]) = [p] \<and>
           p = (FarmerProfile_init instance uid)\<lparr>pk := Some (next_id (accounts_farmer_profile d))\<rparr> \<and>
           farm_name p = username instance @ [CHR 0x27] @ ''s Farm'' \<and>
           farm_size p = ''small'' \<and>
           farming_experience_years p = 1 \<and>
           farm_address p =
             (if full_address instance = [] then ''Not specified'' else full_address instance)"
proof -
  let ?p = "(FarmerProfile_init instance uid)\<lparr>pk := Some (next_id (accounts_farmer_profile d))\<rparr>"
  have "create_user_profile instance True d =
          Done (instance\<lparr>farmer_profile := Some ?p\<rparr>)
            (d\<lparr>accounts_farmer_profile := accounts_farmer_profile d @ [?p]\<rparr>)"
    using assms by (simp add: create_user_profile_def FarmerProfile_create)
  moreover have u: "FarmerProfile.user ?p = uid" by (simp add: FarmerProfile_init_def)
  have "filter (\<lambda>r. FarmerProfile.user r = uid) (accounts_farmer_profile d @ [?p]) = [?p]"
    using assms(4) u by (rule filter_append_new)
  moreover have "farm_name ?p = username instance @ [CHR 0x27] @ ''s Farm''"
    "farm_size ?p = ''small''" "farming_experience_years ?p = 1"
    "farm_address ?p =
       (if full_address instance = [] then ''Not specified'' else full_address instance)"
    by (simp_all add: FarmerProfile_init_def str_or_def)
  ultimately show ?thesis by blast
qed

theorem create_user_profile_farmer_witness:
  "user_type (User_object ravi) = ''farmer'' \<and> pk (User_object ravi) = Some 1 \<and>
   has_pk 1 (accounts_user db0) \<and>
   \<not> list_ex (\<lambda>r. FarmerProfile.user r = 1) (accounts_farmer_profile db0) \<and>
   map (\<lambda>p. (pk p, FarmerProfile.user p, farm_name p, farm_size p, farming_experience_years p,
             farm_address p))
     (accounts_farmer_profile (db_of (create_user_profile (User_object ravi) True db0))) =
     [(Some 1, 1, ''ravi'' @ [CHR 0x27] @ ''s Farm'', ''small'', 1,
       ''12 Canal Road, Guntur, Andhra Pradesh, 522001, India'')]"
proof -
  have h1: "user_type (User_object ravi) = ''farmer''"
    and h2: "pk (User_object ravi) = Some 1"
    and h3: "has_pk 1 (accounts_user db0)"
    and h4: "\<not> list_ex (\<lambda>r. FarmerProfile.user r = 1) (accounts_farmer_profile db0)"
    by (simp_all add: fixture_defs fixture_defs2 has_pk_def)
  have e: "full_address (User_object ravi) = ''12 Canal Road, Guntur, Andhra Pradesh, 522001, India''"
    by (simp add: full_address_def address_parts_def fixture_defs fixture_defs2)
  have u: "username (User_object ravi) = ''ravi''" by (simp add: fixture_defs fixture_defs2)
  have k: "next_id (accounts_farmer_profile db0) = 1" by (simp add: db0_def next_id_def map_filter_def)
  have t: "accounts_farmer_profile db0 = []" by (simp add: db0_def)
  from create_user_profile_farmer[OF h1 h2 h3 h4] obtain p where
    "create_user_profile (User_object ravi) True db0 =
       Done ((User_object ravi)\<lparr>farmer_profile := Some p\<rparr>)
            (db0\<lparr>accounts_farmer_profile := accounts_farmer_profile db0 @ [p]\<rparr>)"
    "p = (FarmerProfile_init (User_object ravi) 1)\<lparr>pk := Some (next_id (accounts_farmer_profile db0))\<rparr>"
    "farm_name p = username (User_object ravi) @ [CHR 0x27] @ ''s Farm''"
    "farm_size p = ''small''" "farming_experience_years p = 1"
    "farm_address p = (if full_address (User_object ravi) = [] then ''Not specified''
        else full_address (User_object ravi))"
    by blast
  then have "map (\<lambda>p. (pk p, FarmerProfile.user p, farm_name p, farm_size p, farming_experience_years p,
             farm_address p))
     (accounts_farmer_profile (db_of (create_user_profile (User_object ravi) True db0))) =
     [(Some 1, 1, ''ravi'' @ [CHR 0x27] @ ''s Farm'', ''small'', 1,
       ''12 Canal Road, Guntur, Andhra Pradesh, 522001, India'')]"
    unfolding e u k t by (simp add: FarmerProfile_init_def next_id_def map_filter_def)
  with h1 h2 h3 h4 show ?thesis by blast
qed

text \<open>
  C3. At the creation event of a buyer or vendor account, \<open>create_user_profile\<close> returns
  and has inserted exactly one \<open>BuyerProfile\<close> of that account, every field at the default
  that the model class declares for it (\<open>individual\<close>, empty texts, zero orders, amounts
  and points, \<open>bronze\<close>, no preference for organic, 50 km), so \<open>total_orders = 0\<close>. For an
  administrator it creates nothing and leaves the database as it was.
\<close>

theorem create_user_profile_buyer:
  "(user_type instance \<in> {''buyer'', ''vendor''} \<and> pk instance = Some uid \<and>
    has_pk uid (accounts_user d) \<and>
    \<not> list_ex (\<lambda>r. BuyerProfile.user r = uid) (accounts_buyer_profile d) \<longrightarrow>
      (\<exists>p. create_user_profile instance True d =
             Done (instance\<lparr>buyer_profile := Some p\<rparr>)
               (d\<lparr>accounts_buyer_profile := accounts_buyer_profile d @ [p]\<rparr>) \<and>
           filter (\<lambda>r. BuyerProfile.user r = uid) (accounts_buyer_profile d @ [p]) = [p] \<and>
           p = \<lparr>pk = Some (next_id (accounts_buyer_profile d)), BuyerProfile.user = uid,
                 buyer_type = ''individual'', company_name = [], gst_number = [],
                 preferred_delivery_time = [], special_instructions = [], total_orders = 0,
                 total_spent = 0, average_order_value = 0, loyalty_points = 0,
                 membership_tier = ''bronze'', prefers_organic = False,
                 max_delivery_distance = 50\<rparr> \<and>
           total_orders p = 0)) \<and>
   (user_type instance = ''admin'' \<longrightarrow> create_user_profile instance created d = Done instance d)"
proof (intro conjI impI)
  assume h: "user_type instance \<in> {''buyer'', ''vendor''} \<and> pk instance = Some uid \<and>
    has_pk uid (accounts_user d) \<and>
    \<not> list_ex (\<lambda>r. BuyerProfile.user r = uid) (accounts_buyer_profile d)"
  let ?p = "(BuyerProfile_init uid)\<lparr>pk := Some (next_id (accounts_buyer_profile d))\<rparr>"
  from h have nf: "user_type instance \<noteq> ''farmer''" by auto
  have "create_user_profile instance True d =
          Done (instance\<lparr>buyer_profile := Some ?p\<rparr>)
            (d\<lparr>accounts_buyer_profile := accounts_buyer_profile d @ [?p]\<rparr>)"
    using h nf by (simp add: create_user_profile_def BuyerProfile_create)
  moreover have u: "BuyerProfile.user ?p = uid" by (simp add: BuyerProfile_init_def)
  from h have "\<not> list_ex (\<lambda>r. BuyerProfile.user r = uid) (accounts_buyer_profile d)" by simp
  then have "filter (\<lambda>r. BuyerProfile.user r = uid) (accounts_buyer_profile d @ [?p]) = [?p]"
    using u by (rule filter_append_new)
  moreover have "?p = \<lparr>pk = Some (next_id (accounts_buyer_profile d)), BuyerProfile.user = uid,
                 buyer_type = ''individual'', company_name = [], gst_number = [],
                 preferred_delivery_time = [], special_instructions = [], total_orders = 0,
                 total_spent = 0, average_order_value = 0, loyalty_points = 0,
                 membership_tier = ''bronze'', prefers_organic = False,
                 max_delivery_distance = 50\<rparr>"
    by (simp add: BuyerProfile_init_def)
  moreover have "total_orders ?p = 0" by (simp add: BuyerProfile_init_def)
  ultimately show "\<exists>p. create_user_profile instance True d =
             Done (instance\<lparr>buyer_profile := Some p\<rparr>)
               (d\<lparr>accounts_buyer_profile := accounts_buyer_profile d @ [p]\<rparr>) \<and>
           filter (\<lambda>r. BuyerProfile.user r = uid) (accounts_buyer_profile d @ [p]) = [p] \<and>
           p = \<lparr>pk = Some (next_id (accounts_buyer_profile d)), BuyerProfile.user = uid,
                 buyer_type = ''individual'', company_name = [], gst_number = [],
                 preferred_delivery_time = [], special_instructions = [], total_orders = 0,
                 total_spent = 0, average_order_value = 0, loyalty_points = 0,
                 membership_tier = ''bronze'', prefers_organic = False,
                 max_delivery_distance = 50\<rparr> \<and>
           total_orders p = 0"
    by blast
next
  assume "user_type instance = ''admin''"
  then show "create_user_profile instance created d = Done instance d"
    by (simp add: create_user_profile_def)
qed

theorem create_user_profile_buyer_witness:
  "user_type (User_object asha) \<in> {''buyer'', ''vendor''} \<and> pk (User_object asha) = Some 2 \<and>
   has_pk 2 (accounts_user (db1\<lparr>accounts_buyer_profile := []\<rparr>)) \<and>
   \<not> list_ex (\<lambda>r. BuyerProfile.user r = 2) (accounts_buyer_profile (db1\<lparr>accounts_buyer_profile := []\<rparr>)) \<and>
   accounts_buyer_profile
     (db_of (create_user_profile (User_object asha) True (db1\<lparr>accounts_buyer_profile := []\<rparr>))) =
     [\<lparr>pk = Some 1, BuyerProfile.user = 2, buyer_type = ''individual'', company_name = [],
       gst_number = [], preferred_delivery_time = [], special_instructions = [],
       total_orders = 0, total_spent = 0, average_order_value = 0, loyalty_points = 0,
       membership_tier = ''bronze'', prefers_organic = False, max_delivery_distance = 50\<rparr>] \<and>
   user_type (User_object (ravi\<lparr>user_type := ''admin''\<rparr>)) = ''admin'' \<and>
   create_user_profile (User_object (ravi\<lparr>user_type := ''admin''\<rparr>)) True db0 =
     Done (User_object (ravi\<lparr>user_type := ''admin''\<rparr>)) db0"
proof -
  let ?d = "db1\<lparr>accounts_buyer_profile := []\<rparr>"
  have h: "user_type (User_object asha) \<in> {''buyer'', ''vendor''} \<and> pk (User_object asha) = Some 2 \<and>
     has_pk 2 (accounts_user ?d) \<and>
     \<not> list_ex (\<lambda>r. BuyerProfile.user r = 2) (accounts_buyer_profile ?d)"
    by (simp add: fixture_defs fixture_defs2 has_pk_def)
  have a: "user_type (User_object (ravi\<lparr>user_type := ''admin''\<rparr>)) = ''admin''"
    by (simp add: fixture_defs fixture_defs2)
  have k: "next_id (accounts_buyer_profile ?d) = 1" by (simp add: next_id_def map_filter_def)
  from create_user_profile_buyer[of "User_object asha" 2 ?d True] h obtain p where
    "create_user_profile (User_object asha) True ?d =
       Done ((User_object asha)\<lparr>buyer_profile := Some p\<rparr>)
            (?d\<lparr>accounts_buyer_profile := accounts_buyer_profile ?d @ [p]\<rparr>)"
    "p = \<lparr>pk = Some (next_id (accounts_buyer_profile ?d)), BuyerProfile.user = 2,
                 buyer_type = ''individual'', company_name = [], gst_number = [],
                 preferred_delivery_time = [], special_instructions = [], total_orders = 0,
                 total_spent = 0, average_order_value = 0, loyalty_points = 0,
                 membership_tier = ''bronze'', prefers_organic = False,
                 max_delivery_distance = 50\<rparr>"
    by blast
  then have "accounts_buyer_profile (db_of (create_user_profile (User_object asha) True ?d)) =
     [\<lparr>pk = Some 1, BuyerProfile.user = 2, buyer_type = ''individual'', company_name = [],
       gst_number = [], preferred_delivery_time = [], special_instructions = [],
       total_orders = 0, total_spent = 0, average_order_value = 0, loyalty_points = 0,
       membership_tier = ''bronze'', prefers_organic = False, max_delivery_distance = 50\<rparr>]"
    unfolding k by simp
  moreover from create_user_profile_buyer[of "User_object (ravi\<lparr>user_type := ''admin''\<rparr>)" 1 db0 True] a
  have "create_user_profile (User_object (ravi\<lparr>user_type := ''admin''\<rparr>)) True db0 =
     Done (User_object (ravi\<lparr>user_type := ''admin''\<rparr>)) db0"
    by blast
  ultimately show ?thesis using h a by blast
qed

text \<open>
  The creation event. Saving a new farmer, buyer or vendor account whose \<open>username\<close> and
  \<open>phone_number\<close> are free, into a database whose profiles all refer to existing accounts,
  returns: the account is inserted under a fresh key, \<open>create_user_profile\<close> inserts the
  one profile of that account, and \<open>save_user_profile\<close> writes the same profile once more.
\<close>

lemma save_table_resave:
  assumes "pk p = Some k" "\<not> has_pk k tbl" "ok p tbl"
  shows "save_table ok p (tbl @ [p]) = Inr (p, tbl @ [p])"
proof -
  have p: "p\<lparr>pk := Some k\<rparr> = p" using assms(1) by simp
  have f: "filter (\<lambda>r. pk r \<noteq> Some k) (tbl @ [p]) = tbl"
    using assms(1,2) by (simp add: filter_no_pk)
  have h: "has_pk k (tbl @ [p])" using assms(1) by (simp add: has_pk_def)
  have "map (\<lambda>r. if pk r = Some k then p else r) tbl = tbl"
    using assms(2) by (intro map_idI) (auto simp: has_pk_iff)
  then have m: "map (\<lambda>r. if pk r = Some k then p else r) (tbl @ [p]) = tbl @ [p]"
    using assms(1) by simp
  have "save_table ok p (tbl @ [p]) =
      (if \<not> ok p tbl then Inl IntegrityError
       else if has_pk k (tbl @ [p]) then Inr (p, tbl @ [p]) else Inr (p, (tbl @ [p]) @ [p]))"
    unfolding save_table_def Let_def assms(1) option.case p f m ..
  with h assms(3) show ?thesis by simp
qed

lemma FarmerProfile_resave:
  assumes "has_pk uid (accounts_user d)"
    and "\<not> list_ex (\<lambda>r. FarmerProfile.user r = uid) tbl"
    and "\<not> has_pk k tbl"
    and "accounts_farmer_profile d = tbl @ [(FarmerProfile_init instance uid)\<lparr>pk := Some k\<rparr>]"
  shows "FarmerProfile_save ((FarmerProfile_init instance uid)\<lparr>pk := Some k\<rparr>) d =
           Done ((FarmerProfile_init instance uid)\<lparr>pk := Some k\<rparr>) d"
proof -
  let ?p = "(FarmerProfile_init instance uid)\<lparr>pk := Some k\<rparr>"
  have q: "?p\<lparr>farm_size_acres := 1, average_rating := 0\<rparr> = ?p"
    by (simp add: FarmerProfile_init_def)
  have v: "farm_size_acres ?p = 1" "average_rating ?p = 0" "pk ?p = Some k"
    by (simp_all add: FarmerProfile_init_def)
  have "FarmerProfile_constraints d ?p tbl"
    using assms(1,2) by (simp add: FarmerProfile_constraints_def FarmerProfile_init_def)
  with v(3) assms(3) have "save_table (FarmerProfile_constraints d) ?p (tbl @ [?p]) = Inr (?p, tbl @ [?p])"
    by (intro save_table_resave)
  then have "save_table (FarmerProfile_constraints d) ?p (accounts_farmer_profile d) =
      Inr (?p, accounts_farmer_profile d)"
    unfolding assms(4) .
  then show ?thesis
    by (simp add: FarmerProfile_save_def v q)
qed

lemma BuyerProfile_resave:
  assumes "has_pk uid (accounts_user d)"
    and "\<not> list_ex (\<lambda>r. BuyerProfile.user r = uid) tbl"
    and "\<not> has_pk k tbl"
    and "accounts_buyer_profile d = tbl @ [(BuyerProfile_init uid)\<lparr>pk := Some k\<rparr>]"
  shows "BuyerProfile_save ((BuyerProfile_init uid)\<lparr>pk := Some k\<rparr>) d =
           Done ((BuyerProfile_init uid)\<lparr>pk := Some k\<rparr>) d"
proof -
  let ?p = "(BuyerProfile_init uid)\<lparr>pk := Some k\<rparr>"
  have q: "?p\<lparr>total_spent := 0, average_order_value := 0\<rparr> = ?p"
    by (simp add: BuyerProfile_init_def)
  have v: "total_spent ?p = 0" "average_order_value ?p = 0" "pk ?p = Some k"
    by (simp_all add: BuyerProfile_init_def)
  have "BuyerProfile_constraints d ?p tbl"
    using assms(1,2) by (simp add: BuyerProfile_constraints_def BuyerProfile_init_def)
  with v(3) assms(3) have "save_table (BuyerProfile_constraints d) ?p (tbl @ [?p]) = Inr (?p, tbl @ [?p])"
    by (intro save_table_resave)
  then have "save_table (BuyerProfile_constraints d) ?p (accounts_buyer_profile d) =
      Inr (?p, accounts_buyer_profile d)"
    unfolding assms(4) .
  then show ?thesis
    by (simp add: BuyerProfile_save_def v q)
qed

lemma User_save_new_farmer:
  assumes new: "pk self = None"
    and role: "user_type self = ''farmer''"
    and uniq: "User_constraints ((User.truncate self)\<lparr>pk := Some (next_id (accounts_user d))\<rparr>)
                 (accounts_user d)"
    and fk: "\<forall>p \<in> set (accounts_farmer_profile d). has_pk (FarmerProfile.user p) (accounts_user d)"
  shows "\<exists>uid p.
      uid = next_id (accounts_user d) \<and>
      p = (FarmerProfile_init self uid)\<lparr>pk := Some (next_id (accounts_farmer_profile d))\<rparr> \<and>
      User_save self d =
        Done (self\<lparr>pk := Some uid, farmer_profile := Some p\<rparr>)
          (d\<lparr>accounts_user := accounts_user d @ [(User.truncate self)\<lparr>pk := Some uid\<rparr>],
             accounts_farmer_profile := accounts_farmer_profile d @ [p]\<rparr>) \<and>
      filter (\<lambda>r. FarmerProfile.user r = uid) (accounts_farmer_profile d @ [p]) = [p]"
proof -
  let ?uid = "next_id (accounts_user d)"
  let ?row = "(User.truncate self)\<lparr>pk := Some ?uid\<rparr>"
  let ?self1 = "self\<lparr>pk := Some ?uid\<rparr>"
  let ?d1 = "d\<lparr>accounts_user := accounts_user d @ [?row]\<rparr>"
  let ?tbl = "accounts_farmer_profile d"
  let ?k = "next_id ?tbl"
  let ?p = "(FarmerProfile_init self ?uid)\<lparr>pk := Some ?k\<rparr>"
  let ?d2 = "?d1\<lparr>accounts_farmer_profile := ?tbl @ [?p]\<rparr>"
  have tr: "pk (User.truncate self) = None" using new by (simp add: User.truncate_def)
  have st: "save_table User_constraints (User.truncate self) (accounts_user d) =
      Inr (?row, accounts_user d @ [?row])"
    using tr uniq by (rule save_table_insert)
  have u1: "has_pk ?uid (accounts_user ?d1)" by (simp add: has_pk_def)
  have none: "\<not> list_ex (\<lambda>r. FarmerProfile.user r = ?uid) ?tbl"
    using fk not_has_pk_next_id[of "accounts_user d"] by (auto simp: list_ex_iff)
  have init: "FarmerProfile_init ?self1 ?uid = FarmerProfile_init self ?uid"
    by (simp add: FarmerProfile_init_def full_address_def address_parts_def)
  have c: "create_user_profile ?self1 True ?d1 = Done (?self1\<lparr>farmer_profile := Some ?p\<rparr>) ?d2"
    using role u1 none FarmerProfile_create[of ?uid ?d1 ?self1]
    by (simp add: create_user_profile_def init)
  have g: "get_farmer_profile (?self1\<lparr>farmer_profile := Some ?p\<rparr>) ?d2 = Some ?p"
    by (simp add: get_farmer_profile_def)
  have u2: "has_pk ?uid (accounts_user ?d2)" by (simp add: has_pk_def)
  have r: "FarmerProfile_save ?p ?d2 = Done ?p ?d2"
    using u2 none not_has_pk_next_id[of ?tbl] by (rule FarmerProfile_resave) simp
  have s: "save_user_profile (?self1\<lparr>farmer_profile := Some ?p\<rparr>) ?d2 =
      Done (?self1\<lparr>farmer_profile := Some ?p\<rparr>) ?d2"
    using role by (simp add: save_user_profile_def save_user_profile_try_def g r)
  have "User_save self d = Done (?self1\<lparr>farmer_profile := Some ?p\<rparr>) ?d2"
    using new by (simp add: User_save_def st c s)
  moreover have "FarmerProfile.user ?p = ?uid" by (simp add: FarmerProfile_init_def)
  with none have "filter (\<lambda>r. FarmerProfile.user r = ?uid) (?tbl @ [?p]) = [?p]"
    by (rule filter_append_new)
  ultimately show ?thesis by simp
qed

lemma User_save_new_buyer:
  assumes new: "pk self = None"
    and role: "user_type self \<in> {''buyer'', ''vendor''}"
    and uniq: "User_constraints ((User.truncate self)\<lparr>pk := Some (next_id (accounts_user d))\<rparr>)
                 (accounts_user d)"
    and fk: "\<forall>p \<in> set (accounts_buyer_profile d). has_pk (BuyerProfile.user p) (accounts_user d)"
  shows "\<exists>uid p.
      uid = next_id (accounts_user d) \<and>
      p = (BuyerProfile_init uid)\<lparr>pk := Some (next_id (accounts_buyer_profile d))\<rparr> \<and>
      User_save self d =
        Done (self\<lparr>pk := Some uid, buyer_profile := Some p\<rparr>)
          (d\<lparr>accounts_user := accounts_user d @ [(User.truncate self)\<lparr>pk := Some uid\<rparr>],
             accounts_buyer_profile := accounts_buyer_profile d @ [p]\<rparr>) \<and>
      filter (\<lambda>r. BuyerProfile.user r = uid) (accounts_buyer_profile d @ [p]) = [p]"
proof -
  let ?uid = "next_id (accounts_user d)"
  let ?row = "(User.truncate self)\<lparr>pk := Some ?uid\<rparr>"
  let ?self1 = "self\<lparr>pk := Some ?uid\<rparr>"
  let ?d1 = "d\<lparr>accounts_user := accounts_user d @ [?row]\<rparr>"
  let ?tbl = "accounts_buyer_profile d"
  let ?k = "next_id ?tbl"
  let ?p = "(BuyerProfile_init ?uid)\<lparr>pk := Some ?k\<rparr>"
  let ?d2 = "?d1\<lparr>accounts_buyer_profile := ?tbl @ [?p]\<rparr>"
  from role have nf: "user_type self \<noteq> ''farmer''" by auto
  have tr: "pk (User.truncate self) = None" using new by (simp add: User.truncate_def)
  have st: "save_table User_constraints (User.truncate self) (accounts_user d) =
      Inr (?row, accounts_user d @ [?row])"
    using tr uniq by (rule save_table_insert)
  have u1: "has_pk ?uid (accounts_user ?d1)" by (simp add: has_pk_def)
  have none: "\<not> list_ex (\<lambda>r. BuyerProfile.user r = ?uid) ?tbl"
    using fk not_has_pk_next_id[of "accounts_user d"] by (auto simp: list_ex_iff)
  have c: "create_user_profile ?self1 True ?d1 = Done (?self1\<lparr>buyer_profile := Some ?p\<rparr>) ?d2"
    using role nf u1 none BuyerProfile_create[of ?uid ?d1]
    by (simp add: create_user_profile_def)
  have g: "get_buyer_profile (?self1\<lparr>buyer_profile := Some ?p\<rparr>) ?d2 = Some ?p"
    by (simp add: get_buyer_profile_def)
  have u2: "has_pk ?uid (accounts_user ?d2)" by (simp add: has_pk_def)
  have r: "BuyerProfile_save ?p ?d2 = Done ?p ?d2"
    using u2 none not_has_pk_next_id[of ?tbl] by (rule BuyerProfile_resave) simp
  have s: "save_user_profile (?self1\<lparr>buyer_profile := Some ?p\<rparr>) ?d2 =
      Done (?self1\<lparr>buyer_profile := Some ?p\<rparr>) ?d2"
    using role nf by (simp add: save_user_profile_def save_user_profile_try_def g r)
  have "User_save self d = Done (?self1\<lparr>buyer_profile := Some ?p\<rparr>) ?d2"
    using new by (simp add: User_save_def st c s)
  moreover have "BuyerProfile.user ?p = ?uid" by (simp add: BuyerProfile_init_def)
  with none have "filter (\<lambda>r. BuyerProfile.user r = ?uid) (?tbl @ [?p]) = [?p]"
    by (rule filter_append_new)
  ultimately show ?thesis by simp
qed

text \<open>
  Saving an account that is already stored, with profile tables whose rows all carry a
  primary key, inserts no profile: \<open>created\<close> is unset, and \<open>save_user_profile\<close> can only
  rewrite the row of the profile it has read.
\<close>

lemma save_table_update_length:
  assumes "save_table ok inst tbl = Inr (inst', tbl')" "pk inst = Some j" "has_pk j tbl"
  shows "length tbl' = length tbl"
  using assms by (auto simp: save_table_def Let_def split: if_splits)

lemma FarmerProfile_save_stored_length:
  assumes "p \<in> set (accounts_farmer_profile d)" "pk p \<noteq> None"
  shows "length (accounts_farmer_profile (db_of (FarmerProfile_save p d))) =
           length (accounts_farmer_profile d) \<and>
         accounts_buyer_profile (db_of (FarmerProfile_save p d)) = accounts_buyer_profile d"
proof -
  from assms obtain j where j: "pk p = Some j" by auto
  with assms(1) have h: "has_pk j (accounts_farmer_profile d)" by (auto simp: has_pk_iff)
  show ?thesis
    using j h
    by (auto simp: FarmerProfile_save_def split: sum.splits
          dest!: save_table_update_length[where j = j])
qed

lemma BuyerProfile_save_stored_length:
  assumes "p \<in> set (accounts_buyer_profile d)" "pk p \<noteq> None"
  shows "length (accounts_buyer_profile (db_of (BuyerProfile_save p d))) =
           length (accounts_buyer_profile d) \<and>
         accounts_farmer_profile (db_of (BuyerProfile_save p d)) = accounts_farmer_profile d"
proof -
  from assms obtain j where j: "pk p = Some j" by auto
  with assms(1) have h: "has_pk j (accounts_buyer_profile d)" by (auto simp: has_pk_iff)
  show ?thesis
    using j h
    by (auto simp: BuyerProfile_save_def split: sum.splits
          dest!: save_table_update_length[where j = j])
qed

lemma save_user_profile_stored_length:
  assumes "farmer_profile instance = None" "buyer_profile instance = None"
    and "\<forall>p \<in> set (accounts_farmer_profile d). pk p \<noteq> None"
    and "\<forall>p \<in> set (accounts_buyer_profile d). pk p \<noteq> None"
  shows "length (accounts_farmer_profile (db_of (save_user_profile instance d))) =
           length (accounts_farmer_profile d) \<and>
         length (accounts_buyer_profile (db_of (save_user_profile instance d))) =
           length (accounts_buyer_profile d)"
proof -
  have db: "db_of (save_user_profile instance d) = db_of (save_user_profile_try instance d)"
    by (cases "save_user_profile_try instance d") (simp_all add: save_user_profile_def)
  show ?thesis
  proof (cases "user_type instance = ''farmer'' \<and> get_farmer_profile instance d \<noteq> None")
    case True
    then obtain p where g: "get_farmer_profile instance d = Some p" by auto
    then have "p \<in> set (accounts_farmer_profile d)"
      using assms(1) by (auto simp: get_farmer_profile_def find_Some_iff split: option.splits)
    with assms(3) have l: "length (accounts_farmer_profile (db_of (FarmerProfile_save p d))) =
           length (accounts_farmer_profile d) \<and>
         accounts_buyer_profile (db_of (FarmerProfile_save p d)) = accounts_buyer_profile d"
      by (intro FarmerProfile_save_stored_length) auto
    have "db_of (save_user_profile_try instance d) = db_of (FarmerProfile_save p d)"
      using True g by (cases "FarmerProfile_save p d") (simp_all add: save_user_profile_try_def)
    with l db show ?thesis by simp
  next
    case nf: False
    show ?thesis
    proof (cases "user_type instance \<in> set [''buyer'', ''vendor''] \<and>
        get_buyer_profile instance d \<noteq> None")
      case True
      then obtain p where g: "get_buyer_profile instance d = Some p" by auto
      then have "p \<in> set (accounts_buyer_profile d)"
        using assms(2) by (auto simp: get_buyer_profile_def find_Some_iff split: option.splits)
      with assms(4) have l: "length (accounts_buyer_profile (db_of (BuyerProfile_save p d))) =
             length (accounts_buyer_profile d) \<and>
           accounts_farmer_profile (db_of (BuyerProfile_save p d)) = accounts_farmer_profile d"
        by (intro BuyerProfile_save_stored_length) auto
      have "save_user_profile_try instance d =
          (case BuyerProfile_save p d of
             Raised e d' \<Rightarrow> Raised e d'
           | Done p' d' \<Rightarrow> Done (instance\<lparr>buyer_profile := Some p'\<rparr>) d')"
      proof -
        have c1: "(user_type instance = ''farmer'' \<and> get_farmer_profile instance d \<noteq> None) = False"
          using nf by simp
        have c2: "(user_type instance \<in> set [''buyer'', ''vendor''] \<and>
            get_buyer_profile instance d \<noteq> None) = True"
          using True by simp
        show ?thesis
          unfolding save_user_profile_try_def c1 c2 by (simp add: g)
      qed
      then have "db_of (save_user_profile_try instance d) = db_of (BuyerProfile_save p d)"
        by (cases "BuyerProfile_save p d") simp_all
      with l db show ?thesis by simp
    next
      case False
      have c1: "(user_type instance = ''farmer'' \<and> get_farmer_profile instance d \<noteq> None) = False"
        using nf by simp
      have c2: "(user_type instance \<in> set [''buyer'', ''vendor''] \<and>
          get_buyer_profile instance d \<noteq> None) = False"
        using False by simp
      have "save_user_profile_try instance d = Done instance d"
        unfolding save_user_profile_try_def c1 c2 by simp
      with db show ?thesis by simp
    qed
  qed
qed

lemma User_save_existing:
  assumes "pk self = Some k" "has_pk k (accounts_user d)"
    and "farmer_profile self = None" "buyer_profile self = None"
    and "\<forall>p \<in> set (accounts_farmer_profile d). pk p \<noteq> None"
    and "\<forall>p \<in> set (accounts_buyer_profile d). pk p \<noteq> None"
  shows "length (accounts_farmer_profile (db_of (User_save self d))) =
           length (accounts_farmer_profile d) \<and>
         length (accounts_buyer_profile (db_of (User_save self d))) =
           length (accounts_buyer_profile d)"
proof (cases "save_table User_constraints (User.truncate self) (accounts_user d)")
  case (Inl e)
  then show ?thesis by (simp add: User_save_def)
next
  case (Inr r)
  obtain row tbl where r: "r = (row, tbl)" by (cases r)
  let ?self1 = "self\<lparr>pk := pk row\<rparr>"
  let ?d1 = "d\<lparr>accounts_user := tbl\<rparr>"
  have "User_save self d = save_user_profile ?self1 ?d1"
    using Inr r assms(1,2) by (simp add: User_save_def create_user_profile_def)
  moreover have "length (accounts_farmer_profile (db_of (save_user_profile ?self1 ?d1))) =
           length (accounts_farmer_profile ?d1) \<and>
         length (accounts_buyer_profile (db_of (save_user_profile ?self1 ?d1))) =
           length (accounts_buyer_profile ?d1)"
    using assms(3-6) by (intro save_user_profile_stored_length) simp_all
  ultimately show ?thesis by simp
qed

text \<open>
  C4. Provisioning does not create a second profile. When the profile of the account's role
  already exists, \<open>create_user_profile\<close> leaves the database unchanged: with
  \<open>created\<close> unset it does nothing, and with \<open>created\<close> set the insert is rejected by
  the one-to-one constraint and the handler raises \<open>IntegrityError\<close>. In particular,
  invoking the handler again after it has returned changes nothing. Without \<open>created\<close>
  the handler never does anything, and saving a stored account again leaves the number
  of profiles as it was.
\<close>

theorem create_user_profile_idempotent:
  "(pk instance = Some uid \<and>
      ((user_type instance = ''farmer'' \<and>
          list_ex (\<lambda>r. FarmerProfile.user r = uid) (accounts_farmer_profile d)) \<or>
       (user_type instance \<in> {''buyer'', ''vendor''} \<and>
          list_ex (\<lambda>r. BuyerProfile.user r = uid) (accounts_buyer_profile d))) \<longrightarrow>
      create_user_profile instance created d =
        (if created then Raised IntegrityError d else Done instance d)) \<and>
   (create_user_profile instance True d = Done instance1 d1 \<longrightarrow>
      db_of (create_user_profile instance1 created d1) = d1 \<and>
      db_of (create_user_profile instance created d1) = d1) \<and>
   create_user_profile instance False d = Done instance d \<and>
   (pk instance = Some uid \<and> has_pk uid (accounts_user d) \<and>
    farmer_profile instance = None \<and> buyer_profile instance = None \<and>
    (\<forall>p \<in> set (accounts_farmer_profile d). pk p \<noteq> None) \<and>
    (\<forall>p \<in> set (accounts_buyer_profile d). pk p \<noteq> None) \<longrightarrow>
      length (accounts_farmer_profile (db_of (User_save instance d))) =
        length (accounts_farmer_profile d) \<and>
      length (accounts_buyer_profile (db_of (User_save instance d))) =
        length (accounts_buyer_profile d))"
proof (intro conjI impI)
  show "create_user_profile instance False d = Done instance d"
    by (simp add: create_user_profile_def)
next
  assume h: "pk instance = Some uid \<and> has_pk uid (accounts_user d) \<and>
    farmer_profile instance = None \<and> buyer_profile instance = None \<and>
    (\<forall>p \<in> set (accounts_farmer_profile d). pk p \<noteq> None) \<and>
    (\<forall>p \<in> set (accounts_buyer_profile d). pk p \<noteq> None)"
  then have "length (accounts_farmer_profile (db_of (User_save instance d))) =
        length (accounts_farmer_profile d) \<and>
      length (accounts_buyer_profile (db_of (User_save instance d))) =
        length (accounts_buyer_profile d)"
    by (intro User_save_existing[of "instance" uid d]) simp_all
  then show "length (accounts_farmer_profile (db_of (User_save instance d))) =
        length (accounts_farmer_profile d)"
    and "length (accounts_buyer_profile (db_of (User_save instance d))) =
        length (accounts_buyer_profile d)"
    by simp_all
next
  assume "pk instance = Some uid \<and>
      ((user_type instance = ''farmer'' \<and>
          list_ex (\<lambda>r. FarmerProfile.user r = uid) (accounts_farmer_profile d)) \<or>
       (user_type instance \<in> {''buyer'', ''vendor''} \<and>
          list_ex (\<lambda>r. BuyerProfile.user r = uid) (accounts_buyer_profile d)))"
  then show "create_user_profile instance created d =
        (if created then Raised IntegrityError d else Done instance d)"
    using create_user_profile_existing[of "instance" uid d created] by blast
next
  assume dn: "create_user_profile instance True d = Done instance1 d1"
  note facts = create_user_profile_Done[OF dn]
  have both: "db_of (create_user_profile i created d1) = d1"
    if "pk i = pk instance" "user_type i = user_type instance" for i
  proof (cases "user_type instance \<in> {''farmer'', ''buyer'', ''vendor''}")
    case True
    have "\<exists>uid'. pk i = Some uid' \<and>
      ((user_type i = ''farmer'' \<and>
            list_ex (\<lambda>r. FarmerProfile.user r = uid') (accounts_farmer_profile d1)) \<or>
         (user_type i \<in> {''buyer'', ''vendor''} \<and>
            list_ex (\<lambda>r. BuyerProfile.user r = uid') (accounts_buyer_profile d1)))"
    proof (cases "user_type instance = ''farmer''")
      case True
      with facts that show ?thesis by auto
    next
      case False
      with True facts that show ?thesis by auto
    qed
    then obtain uid' where "pk i = Some uid'"
      "(user_type i = ''farmer'' \<and>
            list_ex (\<lambda>r. FarmerProfile.user r = uid') (accounts_farmer_profile d1)) \<or>
         (user_type i \<in> {''buyer'', ''vendor''} \<and>
            list_ex (\<lambda>r. BuyerProfile.user r = uid') (accounts_buyer_profile d1))"
      by blast
    then have "create_user_profile i created d1 =
           (if created then Raised IntegrityError d1 else Done i d1)"
      by (rule create_user_profile_existing)
    then show ?thesis by simp
  next
    case False
    with that show ?thesis by (simp add: create_user_profile_def)
  qed
  show "db_of (create_user_profile instance1 created d1) = d1"
    using facts by (intro both) simp_all
  show "db_of (create_user_profile instance created d1) = d1"
    by (intro both) simp_all
qed

theorem create_user_profile_idempotent_witness:
  "pk (User_object ravi) = Some 1 \<and> user_type (User_object ravi) = ''farmer'' \<and>
   list_ex (\<lambda>r. FarmerProfile.user r = 1)
     (accounts_farmer_profile (db0\<lparr>accounts_farmer_profile := [ravi_farm]\<rparr>)) \<and>
   create_user_profile (User_object ravi) True db0 =
     Done ((User_object ravi)\<lparr>farmer_profile := Some ravi_farm\<rparr>)
       (db0\<lparr>accounts_farmer_profile := [ravi_farm]\<rparr>) \<and>
   create_user_profile (User_object ravi) True (db0\<lparr>accounts_farmer_profile := [ravi_farm]\<rparr>) =
     Raised IntegrityError (db0\<lparr>accounts_farmer_profile := [ravi_farm]\<rparr>) \<and>
   db_of (create_user_profile ((User_object ravi)\<lparr>farmer_profile := Some ravi_farm\<rparr>) True
            (db0\<lparr>accounts_farmer_profile := [ravi_farm]\<rparr>)) =
     db0\<lparr>accounts_farmer_profile := [ravi_farm]\<rparr> \<and>
   has_pk 1 (accounts_user (db0\<lparr>accounts_farmer_profile := [ravi_farm]\<rparr>)) \<and>
   farmer_profile (User_object ravi) = None \<and> buyer_profile (User_object ravi) = None \<and>
   list_all (\<lambda>p. pk p \<noteq> None) [ravi_farm] \<and>
   User_save (User_object ravi) (db0\<lparr>accounts_farmer_profile := [ravi_farm]\<rparr>) =
     Done ((User_object ravi)\<lparr>farmer_profile := Some ravi_farm\<rparr>)
       (db0\<lparr>accounts_farmer_profile := [ravi_farm]\<rparr>) \<and>
   length (accounts_farmer_profile
     (db_of (User_save (User_object ravi) (db0\<lparr>accounts_farmer_profile := [ravi_farm]\<rparr>)))) = 1"
proof -
  let ?d1 = "db0\<lparr>accounts_farmer_profile := [ravi_farm]\<rparr>"
  let ?i1 = "(User_object ravi)\<lparr>farmer_profile := Some ravi_farm\<rparr>"
  have h: "pk (User_object ravi) = Some 1" "user_type (User_object ravi) = ''farmer''"
    "list_ex (\<lambda>r. FarmerProfile.user r = 1) (accounts_farmer_profile ?d1)"
    by (simp_all add: fixture_defs fixture_defs2 ravi_farm_def FarmerProfile_init_def)
  have d: "create_user_profile (User_object ravi) True db0 = Done ?i1 ?d1"
    by code_simp
  from create_user_profile_idempotent[of "User_object ravi" 1 ?d1 True] h
  have "create_user_profile (User_object ravi) True ?d1 = Raised IntegrityError ?d1"
    by simp
  moreover from create_user_profile_idempotent[of "User_object ravi" _ db0 True ?i1 ?d1] d
  have "db_of (create_user_profile ?i1 True ?d1) = ?d1"
    by blast
  moreover have e: "has_pk 1 (accounts_user ?d1)" "farmer_profile (User_object ravi) = None"
    "buyer_profile (User_object ravi) = None" "list_all (\<lambda>p. pk p \<noteq> None) [ravi_farm]"
    by (simp_all add: fixture_defs fixture_defs2 ravi_farm_def has_pk_def)
  moreover have u: "User_save (User_object ravi) ?d1 = Done ?i1 ?d1"
    by code_simp
  moreover have "length (accounts_farmer_profile (db_of (User_save (User_object ravi) ?d1))) = 1"
  proof -
    have "\<forall>p \<in> set (accounts_farmer_profile ?d1). pk p \<noteq> None"
      "\<forall>p \<in> set (accounts_buyer_profile ?d1). pk p \<noteq> None"
      using e(4) by (simp_all add: db0_def)
    with create_user_profile_idempotent[of "User_object ravi" 1 ?d1] h(1) e(1-3)
    have "length (accounts_farmer_profile (db_of (User_save (User_object ravi) ?d1))) =
        length (accounts_farmer_profile ?d1)"
      by blast
    then show ?thesis by simp
  qed
  ultimately show ?thesis using h d by blast
qed

text \<open>
  C7. \<open>save_user_profile\<close> always returns. When the body of its \<open>try\<close> raises, whatever
  the error, the handler returns with the account object and the database as they were;
  when the profile of the account's role does not exist, it returns without doing anything.
\<close>

theorem save_user_profile_never_raises:
  "(\<exists>instance' d'. save_user_profile instance d = Done instance' d') \<and>
   (\<forall>e d'. save_user_profile_try instance d = Raised e d' \<longrightarrow>
       d' = d \<and> save_user_profile instance d = Done instance d) \<and>
   ((user_type instance = ''farmer'' \<longrightarrow> get_farmer_profile instance d = None) \<and>
    (user_type instance \<in> {''buyer'', ''vendor''} \<longrightarrow> get_buyer_profile instance d = None) \<longrightarrow>
       save_user_profile instance d = Done instance d)"
proof (intro conjI allI impI)
  show "\<exists>instance' d'. save_user_profile instance d = Done instance' d'"
    by (cases "save_user_profile_try instance d") (simp_all add: save_user_profile_def)
next
  fix e d'
  assume r: "save_user_profile_try instance d = Raised e d'"
  then show "d' = d"
    by (auto simp: save_user_profile_try_def split: if_splits option.splits outcome.splits
          dest: FarmerProfile_save_Raised BuyerProfile_save_Raised)
  with r show "save_user_profile instance d = Done instance d"
    by (simp add: save_user_profile_def)
next
  assume "(user_type instance = ''farmer'' \<longrightarrow> get_farmer_profile instance d = None) \<and>
    (user_type instance \<in> {''buyer'', ''vendor''} \<longrightarrow> get_buyer_profile instance d = None)"
  then have "save_user_profile_try instance d = Done instance d"
    by (auto simp: save_user_profile_try_def)
  then show "save_user_profile instance d = Done instance d"
    by (simp add: save_user_profile_def)
qed

theorem save_user_profile_never_raises_witness:
  "save_user_profile_try ((User_object asha)\<lparr>buyer_profile := Some lavish\<rparr>) db1 =
     Raised InvalidOperation db1 \<and>
   save_user_profile ((User_object asha)\<lparr>buyer_profile := Some lavish\<rparr>) db1 =
     Done ((User_object asha)\<lparr>buyer_profile := Some lavish\<rparr>) db1 \<and>
   user_type (User_object ravi) = ''farmer'' \<and>
   get_farmer_profile (User_object ravi) db0 = None \<and>
   save_user_profile (User_object ravi) db0 = Done (User_object ravi) db0"
proof -
  let ?i = "(User_object asha)\<lparr>buyer_profile := Some lavish\<rparr>"
  have r: "save_user_profile_try ?i db1 = Raised InvalidOperation db1"
    by code_simp
  have h: "user_type (User_object ravi) = ''farmer''" "get_farmer_profile (User_object ravi) db0 = None"
    by (simp_all add: fixture_defs fixture_defs2 get_farmer_profile_def)
  from save_user_profile_never_raises[of ?i db1] r
  have "save_user_profile ?i db1 = Done ?i db1" by blast
  moreover from save_user_profile_never_raises[of "User_object ravi" db0] h
  have "save_user_profile (User_object ravi) db0 = Done (User_object ravi) db0" by simp
  ultimately show ?thesis using r h by blast
qed

text \<open>
  C9. An account whose \<open>country\<close> is non-empty has a non-empty formatted address, and the
  farmer profile provisioned for it carries that address, not the placeholder. The
  placeholder \<open>Not specified\<close> is the farm address exactly when every address component,
  \<open>country\<close> included, is empty.
\<close>

theorem full_address_placeholder:
  "(User.country instance \<noteq> [] \<longrightarrow>
      full_address instance \<noteq> [] \<and>
      farm_address (FarmerProfile_init instance uid) = full_address instance) \<and>
   (farm_address (FarmerProfile_init instance uid) =
      (if \<forall>part \<in> set (address_parts instance). part = [] then ''Not specified''
       else full_address instance)) \<and>
   (user_type instance = ''farmer'' \<and> User.country instance \<noteq> [] \<longrightarrow>
      (\<forall>instance' d'. create_user_profile instance True d = Done instance' d' \<longrightarrow>
         (\<exists>p \<in> set (accounts_farmer_profile d').
            farmer_profile instance' = Some p \<and> farm_address p = full_address instance)))"
proof (intro conjI impI allI)
  assume c: "User.country instance \<noteq> []"
  then show ne: "full_address instance \<noteq> []"
    using country_in_parts[of "instance"] by (auto simp: full_address_empty_iff)
  then show "farm_address (FarmerProfile_init instance uid) = full_address instance"
    by (simp add: FarmerProfile_init_def str_or_def)
next
  show "farm_address (FarmerProfile_init instance uid) =
      (if \<forall>part \<in> set (address_parts instance). part = [] then ''Not specified''
       else full_address instance)"
    unfolding full_address_empty_iff[symmetric]
    by (simp add: FarmerProfile_init_def str_or_def)
next
  fix instance' d'
  assume h: "user_type instance = ''farmer'' \<and> User.country instance \<noteq> []"
    and dn: "create_user_profile instance True d = Done instance' d'"
  from h have ne: "full_address instance \<noteq> []"
    using country_in_parts[of "instance"] by (auto simp: full_address_empty_iff)
  from h dn obtain k p where k: "pk instance = Some k"
    and p: "FarmerProfile_save (FarmerProfile_init instance k) d = Done p d'"
    and i: "instance' = instance\<lparr>farmer_profile := Some p\<rparr>"
    by (auto simp: create_user_profile_def split: option.splits outcome.splits)
  from p obtain row tbl where row: "p = (FarmerProfile_init instance k)\<lparr>pk := pk row\<rparr>"
    and d': "d' = d\<lparr>accounts_farmer_profile := tbl\<rparr>"
    and st: "save_table (FarmerProfile_constraints d)
       ((FarmerProfile_init instance k)\<lparr>farm_size_acres := 1, average_rating := 0\<rparr>)
       (accounts_farmer_profile d) = Inr (row, tbl)"
    by (auto simp: FarmerProfile_save_def FarmerProfile_init_def split: sum.splits)
  have q: "(FarmerProfile_init instance k)\<lparr>farm_size_acres := 1, average_rating := 0\<rparr>
      = FarmerProfile_init instance k"
    by (simp add: FarmerProfile_init_def)
  from st have "row \<in> set tbl" by (rule save_table_mem)
  moreover from st have "row = (FarmerProfile_init instance k)\<lparr>pk := pk row\<rparr>"
    unfolding q by (rule save_table_inst)
  ultimately have "p \<in> set (accounts_farmer_profile d')" using row d' by simp
  moreover have "farm_address p = full_address instance"
    using row ne by (simp add: FarmerProfile_init_def str_or_def)
  ultimately show "\<exists>p \<in> set (accounts_farmer_profile d').
            farmer_profile instance' = Some p \<and> farm_address p = full_address instance"
    using i by auto
qed

theorem full_address_placeholder_witness:
  "User.country (User_object ravi) \<noteq> [] \<and>
   user_type (User_object ravi) = ''farmer'' \<and>
   full_address (User_object ravi) = ''12 Canal Road, Guntur, Andhra Pradesh, 522001, India'' \<and>
   farm_address (FarmerProfile_init (User_object ravi) 1) = full_address (User_object ravi) \<and>
   map farm_address (accounts_farmer_profile (db_of (create_user_profile (User_object ravi) True db0)))
     = [full_address (User_object ravi)] \<and>
   farm_address (FarmerProfile_init (User_object anil) 3) = ''Not specified''"
proof -
  have h: "User.country (User_object ravi) \<noteq> []" "user_type (User_object ravi) = ''farmer''"
    by (simp_all add: fixture_defs fixture_defs2)
  have e: "full_address (User_object ravi) = ''12 Canal Road, Guntur, Andhra Pradesh, 522001, India''"
    by (simp add: full_address_def address_parts_def fixture_defs fixture_defs2)
  have d: "create_user_profile (User_object ravi) True db0 =
      Done ((User_object ravi)\<lparr>farmer_profile := Some ((FarmerProfile_init (User_object ravi) 1)\<lparr>pk := Some 1\<rparr>)\<rparr>)
        (db0\<lparr>accounts_farmer_profile := [(FarmerProfile_init (User_object ravi) 1)\<lparr>pk := Some 1\<rparr>]\<rparr>)"
    by code_simp
  have n: "\<forall>part \<in> set (address_parts (User_object anil)). part = []"
    by (simp add: address_parts_def anil_def fixture_defs fixture_defs2)
  note t1 = full_address_placeholder[of "User_object ravi" 1 db0]
  note t2 = full_address_placeholder[of "User_object anil" 3 db0]
  from t1 h have "farm_address (FarmerProfile_init (User_object ravi) 1) = full_address (User_object ravi)"
    by blast
  moreover from t1 h d have "\<exists>p \<in> set (accounts_farmer_profile (db0\<lparr>accounts_farmer_profile := [(FarmerProfile_init (User_object ravi) 1)\<lparr>pk := Some 1\<rparr>]\<rparr>)).
      farm_address p = full_address (User_object ravi)"
    by blast
  then have "map farm_address (accounts_farmer_profile (db_of (create_user_profile (User_object ravi) True db0)))
     = [full_address (User_object ravi)]"
    unfolding d by simp
  moreover from t2 n have "farm_address (FarmerProfile_init (User_object anil) 3) = ''Not specified''"
    by simp
  ultimately show ?thesis using h e by blast
qed

section \<open>Purchase statistics\<close>






















section \<open>The phone number validator\<close>

lemma step_repeated_Digit:
  "step (repeated n Digit) (i, s) =
     (if n \<le> length s \<and> (\<forall>c \<in> set (take n s). is_digit c) then [(i + n, drop n s)] else [])"
proof (induction n arbitrary: i s)
  case 0
  then show ?case by simp
next
  case (Suc n)
  show ?case
  proof (cases s)
    case Nil
    then show ?thesis by simp
  next
    case (Cons x xs)
    then show ?thesis using Suc.IH[of "Suc i" xs] by simp
  qed
qed

lemma step_country_code:
  "step (Seq (Chr a) (Seq (Chr b) (Chr c))) (i, s) =
     (if take 3 s = [a, b, c] then [(i + 3, drop 3 s)] else [])"
  by (auto split: list.splits)

lemma step_subscriber:
  "step (Seq (Range CHR ''6'' CHR ''9'') (Seq (repeated 9 Digit) Eol)) (i, s) \<noteq> [] \<longleftrightarrow> subscriber s"
proof (cases s)
  case Nil
  then show ?thesis by (simp add: subscriber_def)
next
  case (Cons x xs)
  then show ?thesis
    by (simp add: subscriber_def step_repeated_Digit del: repeated.simps)
qed

lemma step_subscriber':
  "step (Seq (Range CHR ''6'' CHR ''9'') (Seq (repeated 9 Digit) Eol)) st \<noteq> [] \<longleftrightarrow>
     subscriber (snd st)"
  by (cases st) (simp only: step_subscriber snd_conv)

lemma in_range_is_digit: "in_range CHR ''6'' CHR ''9'' x \<Longrightarrow> is_digit x"
  by (simp add: in_range_def is_digit_def)

lemma subscriber_iff:
  "subscriber s \<longleftrightarrow> is_mobile s \<or> (\<exists>t. s = t @ [CHR 0x0A] \<and> is_mobile t)"
proof
  assume "subscriber s"
  then obtain x xs where s: "s = x # xs" and x: "in_range CHR ''6'' CHR ''9'' x"
    and len: "9 \<le> length xs" and dg: "\<forall>c \<in> set (take 9 xs). is_digit c"
    and tl: "drop 9 xs = [] \<or> drop 9 xs = [CHR 0x0A]"
    unfolding subscriber_def by blast
  let ?t = "x # take 9 xs"
  have t: "is_mobile ?t"
    using x len dg by (simp add: is_mobile_def in_range_is_digit)
  from tl show "is_mobile s \<or> (\<exists>t. s = t @ [CHR 0x0A] \<and> is_mobile t)"
  proof
    assume "drop 9 xs = []"
    then have "take 9 xs = xs" by simp
    with t s show ?thesis by simp
  next
    assume d: "drop 9 xs = [CHR 0x0A]"
    have "xs = take 9 xs @ drop 9 xs" by simp
    with d have "s = ?t @ [CHR 0x0A]" using s by simp
    with t show ?thesis by blast
  qed
next
  assume "is_mobile s \<or> (\<exists>t. s = t @ [CHR 0x0A] \<and> is_mobile t)"
  then obtain t r where s: "s = t @ r" and r: "r = [] \<or> r = [CHR 0x0A]" and t: "is_mobile t"
    by auto
  from t obtain x ys where tx: "t = x # ys" and ly: "length ys = 9"
    by (cases t) (auto simp: is_mobile_def)
  from t tx have x: "in_range CHR ''6'' CHR ''9'' x" and dg: "\<forall>c \<in> set ys. is_digit c"
    by (simp_all add: is_mobile_def)
  have "s = x # (ys @ r)" using s tx by simp
  moreover have "9 \<le> length (ys @ r)" using ly by simp
  moreover have "take 9 (ys @ r) = ys" "drop 9 (ys @ r) = r" using ly by simp_all
  ultimately show "subscriber s"
    unfolding subscriber_def using x dg r by metis
qed

lemma regex_search_Bol:
  "regex_search (Seq Bol r) s \<longleftrightarrow> step r (0, s) \<noteq> []"
proof -
  have "step (Seq Bol r) (i, drop i s) \<noteq> [] \<longleftrightarrow> i = 0 \<and> step r (0, s) \<noteq> []" for i
    by simp
  then show ?thesis
    unfolding regex_search_def list_ex_iff by auto
qed

lemma step_Opt_nonempty:
  "step (Seq (Opt p) b) st \<noteq> [] \<longleftrightarrow> (\<exists>st' \<in> set (step p st). step b st' \<noteq> []) \<or> step b st \<noteq> []"
  by auto

text \<open>
  The validator accepts exactly the claimed strings and the claimed strings followed by one
  newline.
\<close>

lemma phone_regex_accepts:
  "regex_search phone_regex s \<longleftrightarrow>
     claimed_phone s \<or> (\<exists>t. s = t @ [CHR 0x0A] \<and> claimed_phone t)"
proof -
  let ?B = "Seq (Range CHR ''6'' CHR ''9'') (Seq (repeated 9 Digit) Eol)"
  let ?P = "Seq (Chr CHR ''+'') (Seq (Chr CHR ''9'') (Chr CHR ''1''))"
  have "regex_search phone_regex s \<longleftrightarrow> step (Seq (Opt ?P) ?B) (0, s) \<noteq> []"
    unfolding phone_regex_def by (rule regex_search_Bol)
  also have "\<dots> \<longleftrightarrow> (\<exists>st' \<in> set (step ?P (0, s)). step ?B st' \<noteq> []) \<or> step ?B (0, s) \<noteq> []"
    by (rule step_Opt_nonempty)
  also have "\<dots> \<longleftrightarrow> (take 3 s = ''+91'' \<and> subscriber (drop 3 s)) \<or> subscriber s"
    unfolding step_country_code step_subscriber' by simp
  also have "\<dots> \<longleftrightarrow> (\<exists>u. s = ''+91'' @ u \<and> subscriber u) \<or> subscriber s"
  proof -
    have "(take 3 s = ''+91'' \<and> subscriber (drop 3 s)) \<longleftrightarrow> (\<exists>u. s = ''+91'' @ u \<and> subscriber u)"
    proof
      assume a: "take 3 s = ''+91'' \<and> subscriber (drop 3 s)"
      have "s = take 3 s @ drop 3 s" by simp
      with a have "s = ''+91'' @ drop 3 s" by metis
      with a show "\<exists>u. s = ''+91'' @ u \<and> subscriber u" by blast
    next
      assume "\<exists>u. s = ''+91'' @ u \<and> subscriber u"
      then show "take 3 s = ''+91'' \<and> subscriber (drop 3 s)" by auto
    qed
    then show ?thesis by simp
  qed
  also have "\<dots> \<longleftrightarrow> claimed_phone s \<or> (\<exists>t. s = t @ [CHR 0x0A] \<and> claimed_phone t)"
    unfolding subscriber_iff claimed_phone_def by (auto; metis append_assoc)
  finally show ?thesis .
qed

text \<open>
  C10. The validator accepts the eleven characters \<open>9876543210\<close> followed by a newline,
  which are not ten digits: \<open>$\<close> also matches before a newline that ends the value.
\<close>

theorem phone_regex_trailing_newline:
  "RegexValidator phone_regex (''9876543210'' @ [CHR 0x0A]) = Inr () \<and>
   length (''9876543210'' @ [CHR 0x0A]) = 11"
  by code_simp

lemma trailing_newline_not_claimed: "\<not> claimed_phone (''9876543210'' @ [CHR 0x0A])"
proof -
  have "\<not> is_mobile (''9876543210'' @ [CHR 0x0A])" by (simp add: is_mobile_def)
  moreover have "\<not> (\<exists>t. ''9876543210'' @ [CHR 0x0A] = ''+91'' @ t \<and> is_mobile t)" by simp
  ultimately show ?thesis unfolding claimed_phone_def by blast
qed

end
